theory Spec2Isabelle
  imports Main
begin

section \<open>Data model of the monitoring engine (src/connection/setup-email.js)\<close>

text \<open>
  The engine is the class \<open>ServerMonitor\<close> together with the helpers it calls
  (\<open>getSetting\<close>, \<open>sendEmail\<close>, \<open>sendWhatsAppMessage\<close>, \<open>sendTelegramMessage\<close>) and the
  route \<open>POST /api/incidents/:id/resolve\<close>.  Times are milliseconds since the epoch
  (\<open>Date.now()\<close>), and every operation receives the clock reading \<open>now\<close> of its
  invocation.  The numbers of the model are integers (a JavaScript number with a
  fraction is not described); the sums and products the engine computes on stored
  numbers are rounded the way double-precision arithmetic rounds them, and differences
  of clock readings, which as dates are below \<open>2^53\<close> in size, are exact.  The store, the log sink and the socket are the
  collaborators of the engine: store operations succeed, and \<open>logEvent\<close> and \<open>io.emit\<close>
  leave no trace in the state below.  Operations run one after the other: two operations
  that interleave at their \<open>await\<close> points are not described.
\<close>

subsection \<open>Values of the settings collection\<close>

text \<open>
  \<open>settingSchema.value\<close> is \<open>Mixed\<close>; the engine tests such values for truthiness and,
  for Telegram subscriptions, with \<open>=== true\<close>.
\<close>

datatype jsval = JNull | JBool bool | JNum int | JStr string

fun truthy :: "jsval \<Rightarrow> bool" where
  "truthy JNull = False"
| "truthy (JBool b) = b"
| "truthy (JNum n) = (n \<noteq> 0)"
| "truthy (JStr s) = (s \<noteq> [])"

subsection \<open>Errors of the runtime\<close>

text \<open>
  The message of the \<open>TypeError\<close> that reading a property of \<open>null\<close> or \<open>undefined\<close>
  throws; the property's name stands between single quotes (character \<open>0x27\<close>).
\<close>

definition typeErrorMessage :: "string \<Rightarrow> string \<Rightarrow> string" where
  "typeErrorMessage what property =
     ''Cannot read properties of '' @ what @ '' (reading '' @ [CHR 0x27] @ property
       @ [CHR 0x27] @ '')''"

subsection \<open>Arithmetic on numbers\<close>

text \<open>
  A JavaScript number is a double: an integer of size up to \<open>2^53\<close> is held exactly,
  and a larger one is rounded to the nearest integer with a 53-bit significand, a tie
  going to the even significand.  \<open>ulp a\<close> is the spacing of the doubles around
  \<open>a \<ge> 2^53\<close>.  (Sizes from \<open>2^1024\<close> on, where a double is infinite, are not
  described.)
\<close>

function ulp :: "int \<Rightarrow> int" where
  "ulp a = (if a < 2 ^ 53 then 1 else 2 * ulp (a div 2))"
  by pat_completeness auto
termination
  by (relation "measure nat") auto

declare ulp.simps [simp del]

definition nearestDouble :: "int \<Rightarrow> int" where
  "nearestDouble n =
     (let a = \<bar>n\<bar> in
      if a \<le> 2 ^ 53 then n
      else
        let q = ulp a;
            m = a div q;
            r = a mod q;
            m' = (if 2 * r < q then m
                  else if q < 2 * r then m + 1
                  else if even m then m else m + 1)
        in sgn n * (m' * q))"

definition jsAdd :: "int \<Rightarrow> int \<Rightarrow> int" where
  "jsAdd a b = nearestDouble (a + b)"

definition jsMul :: "int \<Rightarrow> int \<Rightarrow> int" where
  "jsMul a b = nearestDouble (a * b)"

subsection \<open>Rendering of numbers in template strings\<close>

text \<open>Decimal digits, as JavaScript prints an integer below \<open>10^21\<close>.\<close>

fun show_nat :: "nat \<Rightarrow> string" where
  "show_nat n =
     (if n < 10 then [char_of (48 + n)]
      else show_nat (n div 10) @ [char_of (48 + n mod 10)])"

declare show_nat.simps [simp del]

definition show_int :: "int \<Rightarrow> string" where
  "show_int i = (if i < 0 then CHR ''-'' # show_nat (nat (- i)) else show_nat (nat i))"

subsection \<open>Probe payload, status snapshot, server document\<close>

record players =
  p_online :: int
  p_max :: int

record version =
  v_name :: string
  v_protocol :: "int option"

text \<open>
  \<open>response.data\<close> of the status API.  A field that is absent (or \<open>null\<close>) is \<open>None\<close>.
  The fields \<open>motd\<close>, \<open>icon\<close> and \<open>rawData\<close> are copied into the snapshot and never read
  by the engine; they are left out.
\<close>

record payload =
  d_online :: "bool option"
  d_players :: "players option"
  d_version :: "version option"

text \<open>
  What \<open>axios.get\<close> does: it throws (timeout, transport failure, a status outside 2xx),
  or it answers with \<open>response.data\<close>.  When the data are \<open>null\<close> or \<open>undefined\<close>, reading
  \<open>data.online\<close> throws a \<open>TypeError\<close> inside the same \<open>try\<close> block.  Any other data take
  the \<open>try\<close> branch to its end: an object, or a string such as the empty body or an HTML
  page, whose missing fields read as \<open>undefined\<close> (a \<open>payload\<close> with \<open>None\<close> there).
\<close>

datatype body = NullData | UndefinedData | Data payload

datatype probe = Threw string | Replied body

record status =
  online :: bool
  st_players :: "players option"
  st_version :: "version option"
  st_error :: "string option"
  responseTime :: int
  lastCheck :: int

record stats =
  totalChecks :: int
  uptimeChecks :: int
  totalDowntime :: int

record server =
  sid :: string
  name :: string
  address :: string
  port :: int
  stype :: string
  checkInterval :: int
  lastStatus :: "status option"
  sstats :: stats

subsection \<open>Issues\<close>

record issue =
  i_type :: string
  i_severity :: string
  i_title :: string
  i_description :: string

section \<open>Issue detection: the rule part of \<open>checkForIssues\<close>\<close>

definition protocolMinimum :: int where
  "protocolMinimum = 671"

definition errorText :: "status \<Rightarrow> string" where
  \<comment> \<open>\<open>status.error || 'Connection timeout'\<close>\<close>
  "errorText s =
     (case st_error s of
        None \<Rightarrow> ''Connection timeout''
      | Some e \<Rightarrow> if e = [] then ''Connection timeout'' else e)"

definition offlineIssue :: "server \<Rightarrow> status \<Rightarrow> issue" where
  "offlineIssue srv s =
     \<lparr> i_type = ''server_offline'', i_severity = ''critical'', i_title = ''Server Offline'',
       i_description = ''Server '' @ name srv @ '' is not responding. Error: '' @ errorText s \<rparr>"

definition latencyIssue :: "server \<Rightarrow> status \<Rightarrow> issue" where
  "latencyIssue srv s =
     \<lparr> i_type = ''high_latency'', i_severity = ''warning'', i_title = ''High Latency'',
       i_description = ''Server '' @ name srv @ '' has high latency: ''
                        @ show_int (responseTime s) @ ''ms'' \<rparr>"

definition capacityIssue :: "server \<Rightarrow> players \<Rightarrow> issue" where
  "capacityIssue srv p =
     \<lparr> i_type = ''full_capacity'', i_severity = ''warning'', i_title = ''Server Full'',
       i_description = ''Server '' @ name srv @ '' is at full capacity (''
                        @ show_int (p_online p) @ ''/'' @ show_int (p_max p) @ '')'' \<rparr>"

definition versionIssue :: "server \<Rightarrow> version \<Rightarrow> issue" where
  "versionIssue srv v =
     \<lparr> i_type = ''version_mismatch'', i_severity = ''info'', i_title = ''Old Version'',
       i_description = ''Server '' @ name srv @ '' is running an old version: '' @ v_name v \<rparr>"

text \<open>
  The four guards of \<open>checkForIssues\<close>, each as the source writes it.  The version guard
  is \<open>status.version && status.version.protocol && status.version.protocol < 671\<close>: the
  middle conjunct is a truthiness test, which the number \<open>0\<close> fails.
\<close>

definition offlineGuard :: "status \<Rightarrow> bool" where
  "offlineGuard s = (\<not> online s)"

definition latencyGuard :: "status \<Rightarrow> bool" where
  "latencyGuard s = (responseTime s > 1000)"

definition capacityGuard :: "status \<Rightarrow> bool" where
  "capacityGuard s =
     (case st_players s of
        None \<Rightarrow> False
      | Some p \<Rightarrow> p_online p = p_max p \<and> p_max p > 0)"

definition versionGuard :: "status \<Rightarrow> bool" where
  "versionGuard s =
     (case st_version s of
        None \<Rightarrow> False
      | Some v \<Rightarrow>
          (case v_protocol v of
             None \<Rightarrow> False
           | Some p \<Rightarrow> p \<noteq> 0 \<and> p < protocolMinimum))"

definition detectIssues :: "server \<Rightarrow> status \<Rightarrow> issue list" where
  "detectIssues srv s =
     (let issues = [];
          issues = (if offlineGuard s then issues @ [offlineIssue srv s] else issues);
          issues = (if latencyGuard s then issues @ [latencyIssue srv s] else issues);
          issues = (if capacityGuard s
                    then issues @ [capacityIssue srv (the (st_players s))] else issues);
          issues = (if versionGuard s
                    then issues @ [versionIssue srv (the (st_version s))] else issues)
      in issues)"

section \<open>Store, channels and timers\<close>

record snapshot =
  serverName :: string
  serverAddress :: string
  timestamp :: int

text \<open>
  A row of the incidents collection holds exactly the paths that \<open>incidentSchema\<close>
  declares (lines 205--216) and its \<open>_id\<close>.  The schema declares no \<open>updatedAt\<close> path
  and sets no \<open>timestamps\<close> option.
\<close>

record incident =
  inc_id :: nat
  serverId :: string
  inc_type :: string
  inc_title :: string
  inc_description :: string
  inc_severity :: string
  inc_status :: string
  resolvedAt :: "int option"
  inc_data :: snapshot
  notificationsSent :: bool
  createdAt :: int

text \<open>A message is its template together with the template's arguments.\<close>

datatype message =
    IncidentMail string string string
  | IncidentText string string string
  | RecoveryMail string int
  | RecoveryText string int

datatype channel = Email | WhatsApp | Telegram

fun channelName :: "channel \<Rightarrow> string" where
  "channelName Email = ''email''"
| "channelName WhatsApp = ''whatsapp''"
| "channelName Telegram = ''telegram''"

text \<open>An entry of the local array \<open>notifications\<close> of \<open>sendIncidentNotifications\<close>.\<close>

record outcome =
  o_type :: string
  o_recipient :: jsval
  o_status :: string
  o_error :: "string option"

record notification =
  n_type :: string
  n_title :: string
  n_message :: string
  n_recipient :: jsval
  n_status :: string
  n_error :: "string option"
  sentAt :: int

text \<open>
  The surroundings of the engine: the module variables \<open>emailTransporter\<close>,
  \<open>whatsappClient\<close>, \<open>whatsappReady\<close>, \<open>telegramBot\<close>, \<open>telegramReady\<close> (a client is
  \<open>True\<close> when it is not \<open>null\<close>), and what each provider answers to a delivery:
  \<open>None\<close> when it accepts, \<open>Some e\<close> when it throws an error with message \<open>e\<close>.
\<close>

record world =
  emailTransporter :: bool
  whatsappClient :: bool
  whatsappReady :: bool
  telegramBot :: bool
  telegramReady :: bool
  provider :: "channel \<Rightarrow> jsval \<Rightarrow> message \<Rightarrow> string option"

text \<open>
  A timer made by \<open>setInterval\<close>; its handle is its position in the timer table, and
  \<open>period\<close> is the delay that was passed to \<open>setInterval\<close>.
  The callback of a poll timer checks one server; the callback of a recovery timer holds
  the server and the incident documents of \<open>setupRecoveryCheck\<close>.
\<close>

datatype job = CheckJob string | RecoveryJob server incident

record timer =
  job :: job
  period :: int
  active :: bool

record state =
  incidents :: "incident list"
  notifications :: "notification list"
  settings :: "(string \<times> jsval) list"
  servers :: "server list"
  timers :: "timer list"
  monitoring :: "string \<rightharpoonup> nat"
  incidentCheckers :: "nat \<rightharpoonup> nat"
  sendLog :: "(channel \<times> jsval \<times> message) list"

definition emptyState :: state where
  "emptyState =
     \<lparr> incidents = [], notifications = [], settings = [], servers = [], timers = [],
       monitoring = Map.empty, incidentCheckers = Map.empty, sendLog = [] \<rparr>"

definition setInterval :: "job \<Rightarrow> int \<Rightarrow> state \<Rightarrow> nat \<times> state" where
  "setInterval j ms st =
     (length (timers st),
      st\<lparr>timers := timers st @ [\<lparr> job = j, period = ms, active = True \<rparr>]\<rparr>)"

definition clearInterval :: "nat \<Rightarrow> state \<Rightarrow> state" where
  "clearInterval h st =
     (if h < length (timers st)
      then st\<lparr>timers := (timers st)[h := (timers st ! h)\<lparr>active := False\<rparr>]\<rparr>
      else st)"

definition getSetting :: "state \<Rightarrow> string \<Rightarrow> jsval \<Rightarrow> jsval" where
  "getSetting st k dflt = (case map_of (settings st) k of Some v \<Rightarrow> v | None \<Rightarrow> dflt)"

text \<open>
  \<open>document.save()\<close> writes the schema paths that were modified on the in-memory
  document to the row with the document's \<open>_id\<close>.
\<close>

definition updateIncident :: "nat \<Rightarrow> (incident \<Rightarrow> incident) \<Rightarrow> state \<Rightarrow> state" where
  "updateIncident i f st =
     st\<lparr>incidents := map (\<lambda>r. if inc_id r = i then f r else r) (incidents st)\<rparr>"

definition saveServer :: "server \<Rightarrow> state \<Rightarrow> state" where
  "saveServer doc st =
     st\<lparr>servers := map (\<lambda>r. if sid r = sid doc
                              then r\<lparr>lastStatus := lastStatus doc, sstats := sstats doc\<rparr>
                              else r) (servers st)\<rparr>"

section \<open>Channel senders\<close>

definition sendEmail :: "world \<Rightarrow> jsval \<Rightarrow> message \<Rightarrow> string option" where
  "sendEmail w to m =
     (if \<not> emailTransporter w then Some ''Email transporter not ready''
      else provider w Email to m)"

text \<open>
  \<open>sendWhatsAppMessage\<close> formats the number before it calls the client: it removes
  what is no digit with \<open>phone.replace\<close>, puts \<open>62\<close> in place of a leading \<open>0\<close> and
  appends \<open>@c.us\<close>.  A \<open>phone\<close> that is no string has no \<open>replace\<close>: the call throws a
  \<open>TypeError\<close> inside the function's \<open>try\<close> block, which logs it and throws it on.
\<close>

definition formatPhone :: "string \<Rightarrow> string" where
  "formatPhone phone =
     (let formattedPhone = filter (\<lambda>c. c \<in> set ''0123456789'') phone;
          formattedPhone =
            (if take 2 formattedPhone \<noteq> ''62'' \<and> take 1 formattedPhone = ''0''
             then ''62'' @ drop 1 formattedPhone
             else formattedPhone)
      in formattedPhone @ ''@c.us'')"

definition sendWhatsAppMessage :: "world \<Rightarrow> jsval \<Rightarrow> message \<Rightarrow> string option" where
  "sendWhatsAppMessage w phone m =
     (if \<not> whatsappReady w \<or> \<not> whatsappClient w then Some ''WhatsApp client not ready''
      else case phone of
             JStr s \<Rightarrow> provider w WhatsApp (JStr (formatPhone s)) m
           | JNull \<Rightarrow> Some (typeErrorMessage ''null'' ''replace'')
           | JBool b \<Rightarrow> Some ''phone.replace is not a function''
           | JNum n \<Rightarrow> Some ''phone.replace is not a function'')"

definition sendTelegramMessage :: "world \<Rightarrow> jsval \<Rightarrow> message \<Rightarrow> string option" where
  "sendTelegramMessage w chatId m =
     (if \<not> telegramReady w \<or> \<not> telegramBot w then Some ''Telegram bot not ready''
      else provider w Telegram chatId m)"

fun sender :: "channel \<Rightarrow> world \<Rightarrow> jsval \<Rightarrow> message \<Rightarrow> string option" where
  "sender Email = sendEmail"
| "sender WhatsApp = sendWhatsAppMessage"
| "sender Telegram = sendTelegramMessage"

text \<open>
  One call of a sender: the call is entered in \<open>sendLog\<close>, and the result is the
  message of the error the sender throws, if it throws.
\<close>

definition attempt ::
  "world \<Rightarrow> channel \<Rightarrow> jsval \<Rightarrow> message \<Rightarrow> state \<Rightarrow> string option \<times> state" where
  "attempt w c r m st = (sender c w r m, st\<lparr>sendLog := sendLog st @ [(c, r, m)]\<rparr>)"

section \<open>Notification dispatch: \<open>sendIncidentNotifications\<close>\<close>

definition sentOutcome :: "channel \<Rightarrow> jsval \<Rightarrow> outcome" where
  "sentOutcome c r =
     \<lparr> o_type = channelName c, o_recipient = r, o_status = ''sent'', o_error = None \<rparr>"

definition failedOutcome :: "channel \<Rightarrow> jsval \<Rightarrow> string \<Rightarrow> outcome" where
  "failedOutcome c r e =
     \<lparr> o_type = channelName c, o_recipient = r, o_status = ''failed'', o_error = Some e \<rparr>"

text \<open>
  One \<open>try { await send...; notifications.push(sent) } catch (error)
  { notifications.push(failed) }\<close> block.
\<close>

definition tryDeliver ::
  "world \<Rightarrow> channel \<Rightarrow> jsval \<Rightarrow> message \<Rightarrow> outcome list \<times> state \<Rightarrow> outcome list \<times> state"
  where
  "tryDeliver w c r m acc =
     (case attempt w c r m (snd acc) of
        (None, st') \<Rightarrow> (fst acc @ [sentOutcome c r], st')
      | (Some e, st') \<Rightarrow> (fst acc @ [failedOutcome c r e], st'))"

definition subscriptionPrefix :: string where
  "subscriptionPrefix = ''telegram_subscribed_''"

definition subscribedChats :: "state \<Rightarrow> string list" where
  \<comment> \<open>\<open>Setting.find({ key: /^telegram_subscribed_/ })\<close>, \<open>filter(s => s.value === true)\<close>,
      \<open>key.replace('telegram_subscribed_', '')\<close>\<close>
  "subscribedChats st =
     map (\<lambda>kv. drop (length subscriptionPrefix) (fst kv))
       (filter (\<lambda>kv. snd kv = JBool True)
          (filter (\<lambda>kv. take (length subscriptionPrefix) (fst kv) = subscriptionPrefix)
             (settings st)))"

definition shouldSend :: "state \<Rightarrow> string \<Rightarrow> jsval" where
  "shouldSend st sev =
     (let sendCritical = getSetting st ''notify_critical'' (JBool True);
          sendWarning = getSetting st ''notify_warning'' (JBool True);
          sendInfo = getSetting st ''notify_info'' (JBool False)
      in if sev = ''critical'' then sendCritical
         else if sev = ''warning'' then sendWarning
         else if sev = ''info'' then sendInfo
         else JBool False)"

definition notificationDoc :: "incident \<Rightarrow> int \<Rightarrow> outcome \<Rightarrow> notification" where
  "notificationDoc inc now notif =
     \<lparr> n_type = o_type notif, n_title = inc_title inc, n_message = inc_description inc,
       n_recipient = o_recipient notif, n_status = o_status notif,
       n_error = o_error notif, sentAt = now \<rparr>"

definition saveNotification :: "incident \<Rightarrow> int \<Rightarrow> state \<Rightarrow> outcome \<Rightarrow> state" where
  "saveNotification inc now st notif =
     st\<lparr>notifications := notifications st @ [notificationDoc inc now notif]\<rparr>"

definition sendIncidentNotifications ::
  "world \<Rightarrow> int \<Rightarrow> incident \<Rightarrow> server \<Rightarrow> state \<Rightarrow> state" where
  "sendIncidentNotifications w now inc srv st =
     (let incidentMessage = IncidentText (inc_severity inc) (name srv) (inc_description inc);
          emailEnabled = getSetting st ''email_enabled'' (JBool False);
          telegramEnabled = getSetting st ''telegram_enabled'' (JBool True);
          whatsappEnabled = getSetting st ''whatsapp_enabled'' (JBool False);
          adminEmail = getSetting st ''admin_email'' JNull;
          adminPhone = getSetting st ''admin_phone'' JNull
      in if \<not> truthy (shouldSend st (inc_severity inc)) then st
         else
           let acc = ([], st);
               acc = (if truthy emailEnabled \<and> truthy adminEmail
                      then tryDeliver w Email adminEmail
                             (IncidentMail (inc_severity inc) (inc_title inc) (name srv)) acc
                      else acc);
               acc = (if truthy whatsappEnabled \<and> truthy adminPhone \<and> whatsappReady w
                      then tryDeliver w WhatsApp adminPhone incidentMessage acc
                      else acc);
               acc = (if truthy telegramEnabled \<and> telegramReady w
                      then foldl (\<lambda>a chatId. tryDeliver w Telegram (JStr chatId) incidentMessage a)
                             acc (subscribedChats (snd acc))
                      else acc);
               st1 = foldl (saveNotification inc now) (snd acc) (fst acc)
           in updateIncident (inc_id inc) (\<lambda>r. r\<lparr>notificationsSent := True\<rparr>) st1)"

section \<open>Recovery: \<open>sendRecoveryNotification\<close>, \<open>setupRecoveryCheck\<close>, the resolve route\<close>

text \<open>
  \<open>sendRecoveryNotification\<close> has one \<open>try\<close> block around all its sends: the first send
  that throws ends the function in the \<open>catch\<close>.  It reads no severity setting and
  creates no \<open>Notification\<close> document.
\<close>

fun recoveryLoop :: "world \<Rightarrow> message \<Rightarrow> string list \<Rightarrow> state \<Rightarrow> string option \<times> state" where
  "recoveryLoop w m [] st = (None, st)"
| "recoveryLoop w m (chatId # rest) st =
     (case attempt w Telegram (JStr chatId) m st of
        (Some e, st') \<Rightarrow> (Some e, st')
      | (None, st') \<Rightarrow> recoveryLoop w m rest st')"

definition sendRecoveryNotification :: "world \<Rightarrow> server \<Rightarrow> incident \<Rightarrow> state \<Rightarrow> state" where
  "sendRecoveryNotification w srv inc st =
     (let recoveryMessage = RecoveryText (name srv) (createdAt inc);
          emailEnabled = getSetting st ''email_enabled'' (JBool False);
          telegramEnabled = getSetting st ''telegram_enabled'' (JBool True);
          whatsappEnabled = getSetting st ''whatsapp_enabled'' (JBool False);
          adminEmail = getSetting st ''admin_email'' JNull;
          adminPhone = getSetting st ''admin_phone'' JNull;
          r1 = (if truthy emailEnabled \<and> truthy adminEmail
                then attempt w Email adminEmail (RecoveryMail (name srv) (createdAt inc)) st
                else (None, st))
      in case r1 of
           (Some e, st1) \<Rightarrow> st1
         | (None, st1) \<Rightarrow>
             let r2 = (if truthy whatsappEnabled \<and> truthy adminPhone \<and> whatsappReady w
                       then attempt w WhatsApp adminPhone recoveryMessage st1
                       else (None, st1))
             in case r2 of
                  (Some e, st2) \<Rightarrow> st2
                | (None, st2) \<Rightarrow>
                    if truthy telegramEnabled \<and> telegramReady w
                    then snd (recoveryLoop w recoveryMessage (subscribedChats st2) st2)
                    else st2)"

definition setupRecoveryCheck :: "server \<Rightarrow> incident \<Rightarrow> state \<Rightarrow> state" where
  "setupRecoveryCheck srv inc st =
     (case setInterval (RecoveryJob srv inc) 60000 st of
        (handle, st') \<Rightarrow>
          st'\<lparr>incidentCheckers := (incidentCheckers st')(inc_id inc \<mapsto> handle)\<rparr>)"

text \<open>
  The callback that \<open>setupRecoveryCheck\<close> gives to \<open>setInterval\<close>, for the timer with
  handle \<open>h\<close>.  \<open>ServerModel.findById\<close> of a server that is gone gives \<open>null\<close>, and reading
  \<open>lastStatus\<close> of it throws into the callback's own \<open>catch\<close>.  The callback reads the
  server's row only; it does not read the incident's row.
\<close>

definition recoveryCallback ::
  "world \<Rightarrow> int \<Rightarrow> nat \<Rightarrow> server \<Rightarrow> incident \<Rightarrow> state \<Rightarrow> state" where
  "recoveryCallback w now h srv inc st =
     (case find (\<lambda>r. sid r = sid srv) (servers st) of
        None \<Rightarrow> st
      | Some currentServer \<Rightarrow>
          (case lastStatus currentServer of
             None \<Rightarrow> st
           | Some s \<Rightarrow>
               if online s
               then
                 let st1 = clearInterval h st;
                     st2 = st1\<lparr>incidentCheckers := (incidentCheckers st1)(inc_id inc := None)\<rparr>;
                     st3 = updateIncident (inc_id inc)
                             (\<lambda>r. r\<lparr>inc_status := ''resolved'', resolvedAt := Some now\<rparr>) st2
                 in sendRecoveryNotification w srv inc st3
               else st))"

text \<open>One firing of timer \<open>h\<close>: a cleared timer never fires.\<close>

definition fireRecovery :: "world \<Rightarrow> int \<Rightarrow> nat \<Rightarrow> state \<Rightarrow> state" where
  "fireRecovery w now h st =
     (if h < length (timers st) \<and> active (timers st ! h)
      then (case job (timers st ! h) of
              RecoveryJob srv inc \<Rightarrow> recoveryCallback w now h srv inc st
            | CheckJob s \<Rightarrow> st)
      else st)"

text \<open>\<open>POST /api/incidents/:id/resolve\<close>; an unknown id is answered with 404.\<close>

definition resolveRoute :: "int \<Rightarrow> nat \<Rightarrow> state \<Rightarrow> state" where
  "resolveRoute now i st =
     (case find (\<lambda>r. inc_id r = i) (incidents st) of
        None \<Rightarrow> st
      | Some incident \<Rightarrow>
          updateIncident i (\<lambda>r. r\<lparr>inc_status := ''resolved'', resolvedAt := Some now\<rparr>) st)"

section \<open>Incident ledger: \<open>handleIssue\<close>\<close>

definition dedupWindow :: int where
  "dedupWindow = 30 * 60 * 1000"

definition dedupMatch :: "string \<Rightarrow> string \<Rightarrow> int \<Rightarrow> incident \<Rightarrow> bool" where
  "dedupMatch s k now i =
     (serverId i = s \<and> inc_type i = k \<and> inc_status i = ''active''
      \<and> createdAt i \<ge> now - dedupWindow)"

definition findExisting :: "state \<Rightarrow> server \<Rightarrow> issue \<Rightarrow> int \<Rightarrow> incident option" where
  "findExisting st srv iss now = find (dedupMatch (sid srv) (i_type iss) now) (incidents st)"

definition newIncident :: "state \<Rightarrow> server \<Rightarrow> issue \<Rightarrow> int \<Rightarrow> incident" where
  "newIncident st srv iss now =
     \<lparr> inc_id = length (incidents st), serverId = sid srv, inc_type = i_type iss,
       inc_title = i_title iss, inc_description = i_description iss,
       inc_severity = i_severity iss, inc_status = ''active'', resolvedAt = None,
       inc_data = \<lparr> serverName = name srv,
                    serverAddress = address srv @ '':'' @ show_int (port srv),
                    timestamp = now \<rparr>,
       notificationsSent = False, createdAt = now \<rparr>"

text \<open>
  An assignment to a name that is no path of \<open>incidentSchema\<close> makes a property of the
  object in memory and modifies no path of the document: what \<open>save\<close> writes for it is
  the row as it is.
\<close>

definition assignUndeclared :: "string \<Rightarrow> int \<Rightarrow> incident \<Rightarrow> incident" where
  "assignUndeclared path v r = r"

text \<open>
  In the branch of an existing incident the source assigns \<open>updatedAt\<close>, which the
  schema does not declare, and saves the document.  In the other branch the watcher's
  closure keeps the server and the incident documents; it reads their \<open>_id\<close>, \<open>name\<close>
  and \<open>createdAt\<close>, which no later step changes.
\<close>

definition handleIssue :: "world \<Rightarrow> int \<Rightarrow> server \<Rightarrow> issue \<Rightarrow> state \<Rightarrow> state" where
  "handleIssue w now srv iss st =
     (case findExisting st srv iss now of
        Some existingIncident \<Rightarrow>
          updateIncident (inc_id existingIncident) (assignUndeclared ''updatedAt'' now) st
      | None \<Rightarrow>
          let incident = newIncident st srv iss now;
              st1 = st\<lparr>incidents := incidents st @ [incident]\<rparr>;
              st2 = sendIncidentNotifications w now incident srv st1
          in if i_type iss = ''server_offline''
             then setupRecoveryCheck srv incident st2
             else st2)"

definition checkForIssues :: "world \<Rightarrow> int \<Rightarrow> server \<Rightarrow> status \<Rightarrow> state \<Rightarrow> state" where
  "checkForIssues w now srv s st =
     foldl (\<lambda>acc iss. handleIssue w now srv iss acc) st (detectIssues srv s)"

section \<open>Poller: \<open>checkServer\<close>, \<open>startMonitoring\<close>, \<open>stopMonitoring\<close>\<close>

definition okStatus :: "payload \<Rightarrow> int \<Rightarrow> int \<Rightarrow> status" where
  "okStatus d rt now =
     \<lparr> online = (case d_online d of Some b \<Rightarrow> b | None \<Rightarrow> False),
       st_players = Some (case d_players d of Some p \<Rightarrow> p
                          | None \<Rightarrow> \<lparr> p_online = 0, p_max = 0 \<rparr>),
       st_version = Some (case d_version d of Some v \<Rightarrow> v
                          | None \<Rightarrow> \<lparr> v_name = ''Unknown'', v_protocol = Some (- 1) \<rparr>),
       st_error = None, responseTime = rt, lastCheck = now \<rparr>"

definition errStatus :: "string \<Rightarrow> int \<Rightarrow> int \<Rightarrow> status" where
  "errStatus msg rt now =
     \<lparr> online = False, st_players = None, st_version = None, st_error = Some msg,
       responseTime = rt, lastCheck = now \<rparr>"

text \<open>
  \<open>checkServer\<close> changes the document it is given and saves it; the model returns the
  changed document with the state.  \<open>start\<close> is the clock before the request and
  \<open>now\<close> the clock after it.
\<close>

definition checkServer ::
  "world \<Rightarrow> probe \<Rightarrow> int \<Rightarrow> int \<Rightarrow> server \<Rightarrow> state \<Rightarrow> server \<times> state" where
  "checkServer w pr start now srv st =
     (let srv1 = srv\<lparr>sstats := (sstats srv)
                    \<lparr>totalChecks := jsAdd (totalChecks (sstats srv)) 1\<rparr>\<rparr>;
          rt = now - start;
          failed = (\<lambda>msg.
            let s = errStatus msg rt now;
                srv2 = srv1\<lparr>lastStatus := Some s\<rparr>;
                srv3 = srv2\<lparr>sstats := (sstats srv2)
                         \<lparr>totalDowntime :=
                            jsAdd (totalDowntime (sstats srv2)) (checkInterval srv2)\<rparr>\<rparr>
            in (srv3, checkForIssues w now srv3 s (saveServer srv3 st)))
      in case pr of
           Threw msg \<Rightarrow> failed msg
         | Replied NullData \<Rightarrow> failed (typeErrorMessage ''null'' ''online'')
         | Replied UndefinedData \<Rightarrow> failed (typeErrorMessage ''undefined'' ''online'')
         | Replied (Data d) \<Rightarrow>
             let s = okStatus d rt now;
                 srv2 = srv1\<lparr>lastStatus := Some s\<rparr>;
                 srv3 = (if online s
                         then srv2\<lparr>sstats := (sstats srv2)
                                \<lparr>uptimeChecks := jsAdd (uptimeChecks (sstats srv2)) 1\<rparr>\<rparr>
                         else srv2\<lparr>sstats := (sstats srv2)
                                \<lparr>totalDowntime :=
                                   jsAdd (totalDowntime (sstats srv2)) (checkInterval srv2)\<rparr>\<rparr>)
             in (srv3, checkForIssues w now srv3 s (saveServer srv3 st)))"

definition startMonitoring ::
  "world \<Rightarrow> probe \<Rightarrow> int \<Rightarrow> int \<Rightarrow> server \<Rightarrow> state \<Rightarrow> state" where
  "startMonitoring w pr start now srv st =
     (let st1 = (case monitoring st (sid srv) of
                   Some h \<Rightarrow> clearInterval h st
                 | None \<Rightarrow> st)
      in case setInterval (CheckJob (sid srv)) (jsMul (checkInterval srv) 1000) st1 of
           (interval, st2) \<Rightarrow>
             let st3 = st2\<lparr>monitoring := (monitoring st2)(sid srv \<mapsto> interval)\<rparr>
             in snd (checkServer w pr start now srv st3))"

definition stopMonitoring :: "string \<Rightarrow> state \<Rightarrow> state" where
  "stopMonitoring serverId' st =
     (case monitoring st serverId' of
        Some h \<Rightarrow> (clearInterval h st)\<lparr>monitoring := (monitoring st)(serverId' := None)\<rparr>
      | None \<Rightarrow> st)"

section \<open>Observations used in the statements, and concrete inputs\<close>

definition issueKinds :: "issue list \<Rightarrow> (string \<times> string) list" where
  "issueKinds = map (\<lambda>i. (i_type i, i_severity i))"

definition exServer :: server where
  "exServer =
     \<lparr> sid = ''s1'', name = ''Lobby'', address = ''play.example.net'', port = 19132,
       stype = ''bedrock'', checkInterval = 10, lastStatus = None,
       sstats = \<lparr> totalChecks = 0, uptimeChecks = 0, totalDowntime = 0 \<rparr> \<rparr>"

definition zeroProtocolStatus :: status where
  "zeroProtocolStatus =
     okStatus \<lparr> d_online = Some True, d_players = Some \<lparr> p_online = 3, p_max = 20 \<rparr>,
                d_version = Some \<lparr> v_name = ''13w41a'', v_protocol = Some 0 \<rparr> \<rparr> 50 1000"

definition timeoutStatus :: status where
  "timeoutStatus = errStatus ''timeout'' 10000 1000"

definition bareReply :: payload where
  "bareReply = \<lparr> d_online = Some True, d_players = None, d_version = None \<rparr>"

text \<open>
  The (channel, recipient) pairs of one fan-out, as section 4.4 of the specification
  lists them: the single configured admin recipient for e-mail and for WhatsApp, every
  subscription that wants notifications for the broadcast channel, for the channels
  that are enabled and, where the dispatcher tests it, ready.  The list does not mention
  what the providers answer.
\<close>

definition fanoutPlan ::
  "world \<Rightarrow> state \<Rightarrow> incident \<Rightarrow> server \<Rightarrow> (channel \<times> jsval \<times> message) list" where
  "fanoutPlan w st inc srv =
     (if truthy (getSetting st ''email_enabled'' (JBool False))
         \<and> truthy (getSetting st ''admin_email'' JNull)
      then [(Email, getSetting st ''admin_email'' JNull,
             IncidentMail (inc_severity inc) (inc_title inc) (name srv))]
      else []) @
     (if truthy (getSetting st ''whatsapp_enabled'' (JBool False))
         \<and> truthy (getSetting st ''admin_phone'' JNull) \<and> whatsappReady w
      then [(WhatsApp, getSetting st ''admin_phone'' JNull,
             IncidentText (inc_severity inc) (name srv) (inc_description inc))]
      else []) @
     (if truthy (getSetting st ''telegram_enabled'' (JBool True)) \<and> telegramReady w
      then map (\<lambda>chatId. (Telegram, JStr chatId,
                  IncidentText (inc_severity inc) (name srv) (inc_description inc)))
             (subscribedChats st)
      else [])"

text \<open>The audit record of one attempt: what the sender of the channel did with it.\<close>

definition outcomeOf :: "world \<Rightarrow> channel \<times> jsval \<times> message \<Rightarrow> outcome" where
  "outcomeOf w a =
     (case a of (c, r, m) \<Rightarrow>
        (case sender c w r m of
           None \<Rightarrow> sentOutcome c r
         | Some e \<Rightarrow> failedOutcome c r e))"

text \<open>
  A deployment in which e-mail is enabled without a transporter, two chats are
  subscribed to the bot, and the bot's provider rejects the first of them.
\<close>

definition fanState :: state where
  "fanState = emptyState
     \<lparr> settings := [(''email_enabled'', JBool True), (''admin_email'', JStr ''ops@example.net''),
                     (''telegram_subscribed_100'', JBool True),
                     (''telegram_subscribed_200'', JBool False),
                     (''telegram_subscribed_300'', JBool True)],
       servers := [exServer] \<rparr>"

definition fanWorld :: world where
  "fanWorld =
     \<lparr> emailTransporter = False, whatsappClient = False, whatsappReady = False,
       telegramBot = True, telegramReady = True,
       provider = (\<lambda>c r m. if c = Telegram \<and> r = JStr ''100'' then Some ''chat not found''
                             else None) \<rparr>"

definition fanIncident :: incident where
  "fanIncident = newIncident fanState exServer (offlineIssue exServer timeoutStatus) 1000"

definition notificationSummary :: "notification \<Rightarrow> string \<times> jsval \<times> string \<times> string option" where
  "notificationSummary n = (n_type n, n_recipient n, n_status n, n_error n)"

definition infoIssue :: issue where
  "infoIssue = versionIssue exServer \<lparr> v_name = ''1.19.0'', v_protocol = Some 527 \<rparr>"

definition infoOffState :: state where
  "infoOffState = fanState\<lparr>settings := (''notify_info'', JBool False) # settings fanState\<rparr>"

text \<open>
  The active incidents of a (server, issue kind) pair, and a run of detections of one
  issue for one server at the clock readings \<open>ts\<close>.
\<close>

definition activeFor :: "server \<Rightarrow> issue \<Rightarrow> incident list \<Rightarrow> incident list" where
  "activeFor srv iss incs =
     filter (\<lambda>i. serverId i = sid srv \<and> inc_type i = i_type iss \<and> inc_status i = ''active'')
       incs"

definition detections :: "world \<Rightarrow> server \<Rightarrow> issue \<Rightarrow> int list \<Rightarrow> state \<Rightarrow> state" where
  "detections w srv iss ts st = foldl (\<lambda>acc t. handleIssue w t srv iss acc) st ts"

text \<open>Two failed probes of the same server, five minutes apart.\<close>

definition firstProbe :: "server \<times> state" where
  "firstProbe = checkServer fanWorld (Threw ''connect ECONNREFUSED'') 0 400 exServer fanState"

definition secondProbe :: "server \<times> state" where
  "secondProbe =
     checkServer fanWorld (Threw ''connect ECONNREFUSED'') 300000 300400
       (fst firstProbe) (snd firstProbe)"

text \<open>
  Section 4.1 of the specification, in its words: one check yields one probe result, and
  one update of the statistics (\<open>totalChecks += 1\<close>; on success \<open>uptimeChecks += 1\<close>,
  on failure \<open>totalDowntime += pollInterval\<close>).
\<close>

definition probeResult :: "probe \<Rightarrow> int \<Rightarrow> int \<Rightarrow> status" where
  "probeResult pr rt now =
     (case pr of
        Threw msg \<Rightarrow> errStatus msg rt now
      | Replied NullData \<Rightarrow> errStatus (typeErrorMessage ''null'' ''online'') rt now
      | Replied UndefinedData \<Rightarrow> errStatus (typeErrorMessage ''undefined'' ''online'') rt now
      | Replied (Data d) \<Rightarrow> okStatus d rt now)"


text \<open>
  The statistics that \<open>checkServer\<close> leaves in the document, with the rounding of its
  additions; a reply whose data lack everything (an empty or an HTML body, \<open>{}\<close>); a
  server whose counter of checks stands at \<open>2^53\<close>.
\<close>

definition checkedStats :: "server \<Rightarrow> status \<Rightarrow> stats" where
  "checkedStats srv s =
     (sstats srv)
       \<lparr> totalChecks := jsAdd (totalChecks (sstats srv)) 1,
         uptimeChecks := (if online s then jsAdd (uptimeChecks (sstats srv)) 1
                          else uptimeChecks (sstats srv)),
         totalDowntime := (if online s then totalDowntime (sstats srv)
                           else jsAdd (totalDowntime (sstats srv)) (checkInterval srv)) \<rparr>"



text \<open>
  The poll timers that are armed for a server (each fires one check per period), and
  the condition that every armed poll timer is the one the registry holds for its
  server.
\<close>

definition checkTimers :: "state \<Rightarrow> string \<Rightarrow> nat list" where
  "checkTimers st s =
     filter (\<lambda>h. active (timers st ! h) \<and> job (timers st ! h) = CheckJob s)
       [0..<length (timers st)]"

definition registryOk :: "state \<Rightarrow> bool" where
  "registryOk st =
     (\<forall>h s. h < length (timers st) \<and> active (timers st ! h) \<and> job (timers st ! h) = CheckJob s
        \<longrightarrow> monitoring st s = Some h)"

text \<open>What the recovery callback reads: the stored status of its server.\<close>

definition targetOnline :: "state \<Rightarrow> server \<Rightarrow> bool" where
  "targetOnline st srv =
     (case find (\<lambda>r. sid r = sid srv) (servers st) of
        None \<Rightarrow> False
      | Some currentServer \<Rightarrow>
          (case lastStatus currentServer of None \<Rightarrow> False | Some s \<Rightarrow> online s))"

text \<open>
  An offline incident that an administrator resolves before the server is back: the
  first failed probe opens incident 0 and arms its watcher (timer 0); the resolve route
  closes the incident at 500000; a healthy probe follows at 600050; the watcher fires at
  660000, in a deployment whose senders all accept.
\<close>

definition healthyReply :: payload where
  "healthyReply =
     \<lparr> d_online = Some True, d_players = Some \<lparr> p_online = 3, p_max = 20 \<rparr>,
       d_version = Some \<lparr> v_name = ''1.21.0'', v_protocol = Some 685 \<rparr> \<rparr>"

definition readyWorld :: world where
  "readyWorld = fanWorld\<lparr>emailTransporter := True, provider := (\<lambda>c r m. None)\<rparr>"

definition externallyResolved :: state where
  "externallyResolved = resolveRoute 500000 0 (snd firstProbe)"

definition recovered :: state where
  "recovered =
     snd (checkServer readyWorld (Replied (Data healthyReply)) 600000 600050
            (fst firstProbe) externallyResolved)"

definition watcherTick :: state where
  "watcherTick = fireRecovery readyWorld 660000 0 recovered"

definition incidentSummary :: "incident \<Rightarrow> nat \<times> string \<times> int option" where
  "incidentSummary i = (inc_id i, inc_status i, resolvedAt i)"

definition watchedIncident :: incident where
  "watchedIncident =
     newIncident (saveServer (fst firstProbe) fanState) (fst firstProbe)
       (offlineIssue (fst firstProbe) (errStatus ''connect ECONNREFUSED'' 400 400)) 400"

section \<open>Issue detection\<close>

lemmas rule_defs = detectIssues_def offlineGuard_def latencyGuard_def capacityGuard_def
  versionGuard_def protocolMinimum_def offlineIssue_def latencyIssue_def capacityIssue_def
  versionIssue_def

lemma issueKinds_detect:
  "issueKinds (detectIssues srv s) =
     (if \<not> online s then [(''server_offline'', ''critical'')] else []) @
     (if responseTime s > 1000 then [(''high_latency'', ''warning'')] else []) @
     (if (\<exists>p. st_players s = Some p \<and> p_online p = p_max p \<and> p_max p > 0)
      then [(''full_capacity'', ''warning'')] else []) @
     (if (\<exists>v p. st_version s = Some v \<and> v_protocol v = Some p \<and> p \<noteq> 0 \<and> p < 671)
      then [(''version_mismatch'', ''info'')] else [])"
  by (auto simp: issueKinds_def rule_defs split: option.splits)

text \<open>
  C5, as the code has it.  \<open>detectIssues\<close> is a function of the server and the status
  alone, and it returns exactly the issues whose rule matches, each rule on its own and
  in the order of the source: a status that is not online gives
  \<open>server_offline/critical\<close>, a response time over 1000 ms gives \<open>high_latency/warning\<close>,
  players online equal to a positive maximum gives \<open>full_capacity/warning\<close>, and a
  protocol number that is present, not zero and below 671 gives \<open>version_mismatch/info\<close>.
  No issue is raised exactly when none of the four rules matches.
\<close>

theorem detectIssues_rules:
  "issueKinds (detectIssues srv s) =
     (if \<not> online s then [(''server_offline'', ''critical'')] else []) @
     (if responseTime s > 1000 then [(''high_latency'', ''warning'')] else []) @
     (if (\<exists>p. st_players s = Some p \<and> p_online p = p_max p \<and> p_max p > 0)
      then [(''full_capacity'', ''warning'')] else []) @
     (if (\<exists>v p. st_version s = Some v \<and> v_protocol v = Some p \<and> p \<noteq> 0 \<and> p < 671)
      then [(''version_mismatch'', ''info'')] else [])
   \<and> (detectIssues srv s = []) =
       (online s \<and> responseTime s \<le> 1000
        \<and> \<not> (\<exists>p. st_players s = Some p \<and> p_online p = p_max p \<and> p_max p > 0)
        \<and> \<not> (\<exists>v p. st_version s = Some v \<and> v_protocol v = Some p \<and> p \<noteq> 0 \<and> p < 671))"
proof -
  have "(detectIssues srv s = []) = (issueKinds (detectIssues srv s) = [])"
    by (simp add: issueKinds_def)
  then show ?thesis
    unfolding issueKinds_detect by auto
qed

theorem detectIssues_rules_witness:
  "issueKinds (detectIssues exServer timeoutStatus) =
     [(''server_offline'', ''critical''), (''high_latency'', ''warning'')]"
  using detectIssues_rules [of exServer timeoutStatus]
  by (simp add: timeoutStatus_def errStatus_def)

text \<open>
  C5 as it is written fails for the protocol number 0: it is present and below the
  minimum, and the truthiness test of the guard rejects it, so no issue is raised.
\<close>

theorem detect_zero_protocol_counterexample:
  "st_version zeroProtocolStatus = Some \<lparr> v_name = ''13w41a'', v_protocol = Some 0 \<rparr>
   \<and> (0::int) < protocolMinimum
   \<and> detectIssues exServer zeroProtocolStatus = []"
  by (simp add: zeroProtocolStatus_def okStatus_def rule_defs)

text \<open>
  C10.  A reply without version metadata makes \<open>checkServer\<close> build a status whose
  protocol number is \<open>-1\<close>; the detector then raises \<open>version_mismatch/info\<close> for it,
  and when the reply is online, answered within 1000 ms and not full, that is the only
  issue raised.
\<close>

theorem missing_version_mismatch:
  assumes "d_version d = None"
  shows "lastStatus (fst (checkServer w (Replied (Data d)) start now srv st))
           = Some (okStatus d (now - start) now)
    \<and> st_version (okStatus d rt now) = Some \<lparr> v_name = ''Unknown'', v_protocol = Some (- 1) \<rparr>
    \<and> (''version_mismatch'', ''info'') \<in> set (issueKinds (detectIssues srv' (okStatus d rt now)))
    \<and> (d_online d = Some True \<and> rt \<le> 1000
        \<and> (\<forall>p. d_players d = Some p \<longrightarrow> \<not> (p_online p = p_max p \<and> p_max p > 0))
        \<longrightarrow> issueKinds (detectIssues srv' (okStatus d rt now)) = [(''version_mismatch'', ''info'')])"
proof -
  have a: "lastStatus (fst (checkServer w (Replied (Data d)) start now srv st))
           = Some (okStatus d (now - start) now)"
    by (simp add: checkServer_def Let_def)
  have b: "st_version (okStatus d rt now) = Some \<lparr> v_name = ''Unknown'', v_protocol = Some (- 1) \<rparr>"
    using assms by (simp add: okStatus_def)
  have c: "(''version_mismatch'', ''info'') \<in> set (issueKinds (detectIssues srv' (okStatus d rt now)))"
    using b by (simp add: issueKinds_detect)
  have d: "issueKinds (detectIssues srv' (okStatus d rt now)) = [(''version_mismatch'', ''info'')]"
    if "d_online d = Some True" "rt \<le> 1000"
       "\<forall>p. d_players d = Some p \<longrightarrow> \<not> (p_online p = p_max p \<and> p_max p > 0)"
    using that b by (auto simp: issueKinds_detect okStatus_def split: option.splits)
  from a b c d show ?thesis by blast
qed

theorem missing_version_mismatch_witness:
  "d_version bareReply = None
   \<and> issueKinds (detectIssues exServer (okStatus bareReply 50 1000))
       = [(''version_mismatch'', ''info'')]"
proof -
  have h: "d_version bareReply = None" by (simp add: bareReply_def)
  show ?thesis
    using h missing_version_mismatch [OF h, where srv' = exServer and rt = 50 and now = 1000]
    by (simp add: bareReply_def)
qed

section \<open>Notification dispatch\<close>

lemma tryDeliver_eq:
  "tryDeliver w c r m (os, st) =
     (os @ [outcomeOf w (c, r, m)], st\<lparr>sendLog := sendLog st @ [(c, r, m)]\<rparr>)"
  by (simp add: tryDeliver_def attempt_def outcomeOf_def split: option.splits)

lemma telegram_loop_eq:
  "foldl (\<lambda>a chatId. tryDeliver w Telegram (JStr chatId) m a) (os, st) cs =
     (os @ map (\<lambda>c. outcomeOf w (Telegram, JStr c, m)) cs,
      st\<lparr>sendLog := sendLog st @ map (\<lambda>c. (Telegram, JStr c, m)) cs\<rparr>)"
  by (induction cs arbitrary: os st) (simp_all add: tryDeliver_eq)

lemma saveNotifications_eq:
  "foldl (saveNotification inc now) st os =
     st\<lparr>notifications := notifications st @ map (notificationDoc inc now) os\<rparr>"
  by (induction os arbitrary: st) (simp_all add: saveNotification_def)

lemma subscribedChats_sendLog [simp]:
  "subscribedChats (st\<lparr>sendLog := l\<rparr>) = subscribedChats st"
  by (simp add: subscribedChats_def)

lemma dispatch_eq:
  assumes "truthy (shouldSend st (inc_severity inc))"
  shows "sendIncidentNotifications w now inc srv st =
     updateIncident (inc_id inc) (\<lambda>r. r\<lparr>notificationsSent := True\<rparr>)
       (st\<lparr>sendLog := sendLog st @ fanoutPlan w st inc srv,
           notifications := notifications st
              @ map (\<lambda>a. notificationDoc inc now (outcomeOf w a)) (fanoutPlan w st inc srv)\<rparr>)"
  using assms
  by (simp add: sendIncidentNotifications_def Let_def tryDeliver_eq telegram_loop_eq
      saveNotifications_eq fanoutPlan_def updateIncident_def getSetting_def comp_def)

lemma dispatch_gated:
  "\<not> truthy (shouldSend st (inc_severity inc)) \<Longrightarrow> sendIncidentNotifications w now inc srv st = st"
  by (simp add: sendIncidentNotifications_def Let_def)

lemma fanoutPlan_provider: "fanoutPlan (w\<lparr>provider := p\<rparr>) st inc srv = fanoutPlan w st inc srv"
  by (simp add: fanoutPlan_def)

lemma outcome_status:
  "n_status (notificationDoc inc now (outcomeOf w (c, r, m))) =
     (if sender c w r m = None then ''sent'' else ''failed'')
   \<and> n_error (notificationDoc inc now (outcomeOf w (c, r, m))) = sender c w r m
   \<and> n_type (notificationDoc inc now (outcomeOf w (c, r, m))) = channelName c
   \<and> n_recipient (notificationDoc inc now (outcomeOf w (c, r, m))) = r"
  by (simp add: notificationDoc_def outcomeOf_def sentOutcome_def failedOutcome_def
      split: option.splits)

text \<open>
  C3.  When the severity of the incident is enabled, \<open>sendIncidentNotifications\<close> calls
  the sender of every planned (channel, recipient) pair, in order, whatever the senders
  answer: the calls made are the plan, and the plan does not depend on the providers.
  Every call leaves exactly one notification record, \<open>sent\<close> when the sender returned
  and \<open>failed\<close> with the error's message when it threw, and afterwards the incident's
  row has \<open>notificationsSent\<close> set.
\<close>

theorem fanout_isolation:
  assumes "truthy (shouldSend st (inc_severity inc))"
  shows "sendLog (sendIncidentNotifications w now inc srv st) = sendLog st @ fanoutPlan w st inc srv
    \<and> fanoutPlan (w\<lparr>provider := p\<rparr>) st inc srv = fanoutPlan w st inc srv
    \<and> notifications (sendIncidentNotifications w now inc srv st) =
        notifications st
          @ map (\<lambda>a. notificationDoc inc now (outcomeOf w a)) (fanoutPlan w st inc srv)
    \<and> (\<forall>c r m. n_status (notificationDoc inc now (outcomeOf w (c, r, m))) =
                 (if sender c w r m = None then ''sent'' else ''failed'')
               \<and> n_error (notificationDoc inc now (outcomeOf w (c, r, m))) = sender c w r m
               \<and> n_type (notificationDoc inc now (outcomeOf w (c, r, m))) = channelName c
               \<and> n_recipient (notificationDoc inc now (outcomeOf w (c, r, m))) = r)
    \<and> incidents (sendIncidentNotifications w now inc srv st) =
        map (\<lambda>r. if inc_id r = inc_id inc then r\<lparr>notificationsSent := True\<rparr> else r)
          (incidents st)"
  using assms outcome_status
  by (simp add: dispatch_eq fanoutPlan_provider updateIncident_def)

theorem fanout_isolation_witness:
  "truthy (shouldSend (fanState\<lparr>incidents := [fanIncident]\<rparr>) (inc_severity fanIncident))
   \<and> map (\<lambda>a. (fst a, fst (snd a)))
       (sendLog (sendIncidentNotifications fanWorld 1000 fanIncident exServer
          (fanState\<lparr>incidents := [fanIncident]\<rparr>)))
     = [(Email, JStr ''ops@example.net''), (Telegram, JStr ''100''), (Telegram, JStr ''300'')]
   \<and> map notificationSummary
       (notifications (sendIncidentNotifications fanWorld 1000 fanIncident exServer
          (fanState\<lparr>incidents := [fanIncident]\<rparr>)))
     = [(''email'', JStr ''ops@example.net'', ''failed'', Some ''Email transporter not ready''),
        (''telegram'', JStr ''100'', ''failed'', Some ''chat not found''),
        (''telegram'', JStr ''300'', ''sent'', None)]
   \<and> map notificationsSent
       (incidents (sendIncidentNotifications fanWorld 1000 fanIncident exServer
          (fanState\<lparr>incidents := [fanIncident]\<rparr>))) = [True]"
proof -
  have h: "truthy (shouldSend (fanState\<lparr>incidents := [fanIncident]\<rparr>) (inc_severity fanIncident))"
    by (simp add: shouldSend_def getSetting_def fanState_def emptyState_def fanIncident_def
        newIncident_def offlineIssue_def)
  have p: "fanoutPlan fanWorld (fanState\<lparr>incidents := [fanIncident]\<rparr>) fanIncident exServer =
     [(Email, JStr ''ops@example.net'',
         IncidentMail (inc_severity fanIncident) (inc_title fanIncident) (name exServer)),
      (Telegram, JStr ''100'',
         IncidentText (inc_severity fanIncident) (name exServer) (inc_description fanIncident)),
      (Telegram, JStr ''300'',
         IncidentText (inc_severity fanIncident) (name exServer) (inc_description fanIncident))]"
    by (simp add: fanoutPlan_def getSetting_def fanState_def emptyState_def fanWorld_def
        subscribedChats_def subscriptionPrefix_def)
  note T = fanout_isolation [OF h, of fanWorld 1000 exServer "provider fanWorld"]
  have l: "map (\<lambda>a. (fst a, fst (snd a)))
       (sendLog (sendIncidentNotifications fanWorld 1000 fanIncident exServer
          (fanState\<lparr>incidents := [fanIncident]\<rparr>)))
     = [(Email, JStr ''ops@example.net''), (Telegram, JStr ''100''), (Telegram, JStr ''300'')]"
    unfolding T [THEN conjunct1] p by (simp add: fanState_def emptyState_def)
  have n: "map notificationSummary
       (notifications (sendIncidentNotifications fanWorld 1000 fanIncident exServer
          (fanState\<lparr>incidents := [fanIncident]\<rparr>)))
     = [(''email'', JStr ''ops@example.net'', ''failed'', Some ''Email transporter not ready''),
        (''telegram'', JStr ''100'', ''failed'', Some ''chat not found''),
        (''telegram'', JStr ''300'', ''sent'', None)]"
    unfolding T [THEN conjunct2, THEN conjunct2, THEN conjunct1] p
    by (simp add: notificationSummary_def notificationDoc_def outcomeOf_def
        sentOutcome_def failedOutcome_def sendEmail_def sendTelegramMessage_def fanWorld_def
        fanState_def emptyState_def)
  have i: "map notificationsSent
       (incidents (sendIncidentNotifications fanWorld 1000 fanIncident exServer
          (fanState\<lparr>incidents := [fanIncident]\<rparr>))) = [True]"
    unfolding T [THEN conjunct2, THEN conjunct2, THEN conjunct2, THEN conjunct2]
    by simp
  from h l n i show ?thesis by blast
qed

section \<open>Incident handling and severity gating\<close>

lemma updateIncident_id [simp]: "updateIncident i (assignUndeclared path v) st = st"
  by (simp add: updateIncident_def assignUndeclared_def cong: if_cong)

lemma handle_hit:
  "findExisting st srv iss now = Some e \<Longrightarrow> handleIssue w now srv iss st = st"
  by (simp add: handleIssue_def)

lemma shouldSend_incidents [simp]:
  "shouldSend (st\<lparr>incidents := xs\<rparr>) sev = shouldSend st sev"
  by (simp add: shouldSend_def getSetting_def)

lemma setupRecoveryCheck_fields [simp]:
  "incidents (setupRecoveryCheck srv inc st) = incidents st"
  "notifications (setupRecoveryCheck srv inc st) = notifications st"
  "sendLog (setupRecoveryCheck srv inc st) = sendLog st"
  "settings (setupRecoveryCheck srv inc st) = settings st"
  "servers (setupRecoveryCheck srv inc st) = servers st"
  "monitoring (setupRecoveryCheck srv inc st) = monitoring st"
  "timers (setupRecoveryCheck srv inc st) =
     timers st @ [\<lparr> job = RecoveryJob srv inc, period = 60000, active = True \<rparr>]"
  by (simp_all add: setupRecoveryCheck_def setInterval_def)

text \<open>
  C4.  When the setting for the issue's severity is off, handling the issue writes no
  notification record and calls no sender; the dispatcher returns the state it was
  given.  The incident is created and stored all the same (unless an incident inside
  the dedup window absorbs the detection), with \<open>notificationsSent\<close> still false.
\<close>

theorem gated_issue_creates_incident_only:
  assumes "\<not> truthy (shouldSend st (i_severity iss))"
  shows "notifications (handleIssue w now srv iss st) = notifications st
    \<and> sendLog (handleIssue w now srv iss st) = sendLog st
    \<and> sendIncidentNotifications w now (newIncident st srv iss now) srv
         (st\<lparr>incidents := incidents st @ [newIncident st srv iss now]\<rparr>)
       = st\<lparr>incidents := incidents st @ [newIncident st srv iss now]\<rparr>
    \<and> (findExisting st srv iss now = None \<longrightarrow>
         incidents (handleIssue w now srv iss st) = incidents st @ [newIncident st srv iss now])"
proof -
  have g: "sendIncidentNotifications w now (newIncident st srv iss now) srv
         (st\<lparr>incidents := incidents st @ [newIncident st srv iss now]\<rparr>)
       = st\<lparr>incidents := incidents st @ [newIncident st srv iss now]\<rparr>"
    using assms by (simp add: sendIncidentNotifications_def Let_def newIncident_def)
  show ?thesis
    using g by (cases "findExisting st srv iss now") (simp_all add: handleIssue_def Let_def)
qed

theorem gated_issue_creates_incident_only_witness:
  "\<not> truthy (shouldSend infoOffState (i_severity infoIssue))
   \<and> i_severity infoIssue = ''info''
   \<and> getSetting infoOffState ''notify_info'' (JBool False) = JBool False
   \<and> notifications (handleIssue fanWorld 1000 exServer infoIssue infoOffState) = []
   \<and> sendLog (handleIssue fanWorld 1000 exServer infoIssue infoOffState) = []
   \<and> incidents (handleIssue fanWorld 1000 exServer infoIssue infoOffState)
       = [newIncident infoOffState exServer infoIssue 1000]"
proof -
  have h: "\<not> truthy (shouldSend infoOffState (i_severity infoIssue))"
    by (simp add: shouldSend_def getSetting_def infoOffState_def infoIssue_def versionIssue_def)
  have f: "findExisting infoOffState exServer infoIssue 1000 = None"
    by (simp add: findExisting_def infoOffState_def fanState_def emptyState_def)
  have e: "notifications infoOffState = [] \<and> sendLog infoOffState = [] \<and> incidents infoOffState = []"
    by (simp add: infoOffState_def fanState_def emptyState_def)
  have s: "i_severity infoIssue = ''info''
         \<and> getSetting infoOffState ''notify_info'' (JBool False) = JBool False"
    by (simp add: getSetting_def infoOffState_def infoIssue_def versionIssue_def)
  show ?thesis
    using h s gated_issue_creates_incident_only [OF h, of fanWorld 1000 exServer] f e
    by simp
qed

text \<open>
  C7, at the deployment \<open>fanState\<close>/\<open>fanWorld\<close>.  The recovery notice for an incident
  calls \<open>sendEmail\<close>, which throws; the two subscribed chats are never tried, and no
  notification record is written.  (\<open>sendIncidentNotifications\<close> tries all three
  recipients in the same deployment and records each outcome.)
\<close>

theorem recovery_fanout_aborts:
  "subscribedChats (fanState\<lparr>incidents := [fanIncident]\<rparr>) = [''100'', ''300'']
   \<and> telegramReady fanWorld
   \<and> map (\<lambda>a. (fst a, fst (snd a)))
       (sendLog (sendRecoveryNotification fanWorld exServer fanIncident
          (fanState\<lparr>incidents := [fanIncident]\<rparr>)))
     = [(Email, JStr ''ops@example.net'')]
   \<and> notifications (sendRecoveryNotification fanWorld exServer fanIncident
          (fanState\<lparr>incidents := [fanIncident]\<rparr>)) = []"
  by (simp add: sendRecoveryNotification_def Let_def getSetting_def fanState_def emptyState_def
      fanWorld_def attempt_def sendEmail_def subscribedChats_def subscriptionPrefix_def)

section \<open>What one check and one handling change\<close>

lemma nearestDouble_exact: "\<bar>n\<bar> \<le> 2 ^ 53 \<Longrightarrow> nearestDouble n = n"
  by (simp add: nearestDouble_def Let_def)


lemma checkServer_eq:
  "checkServer w pr start now srv st =
     (let s = probeResult pr (now - start) now;
          doc = srv\<lparr>lastStatus := Some s, sstats := checkedStats srv s\<rparr>
      in (doc, checkForIssues w now doc s (saveServer doc st)))"
proof (cases pr)
  case (Threw msg)
  then show ?thesis
    by (simp add: checkServer_def probeResult_def checkedStats_def Let_def errStatus_def)
next
  case (Replied data)
  then show ?thesis
    by (cases data)
       (simp_all add: checkServer_def probeResult_def checkedStats_def Let_def errStatus_def
          okStatus_def)
qed

lemma dispatch_fields [simp]:
  "servers (sendIncidentNotifications w now inc srv st) = servers st"
  "settings (sendIncidentNotifications w now inc srv st) = settings st"
  "timers (sendIncidentNotifications w now inc srv st) = timers st"
  "monitoring (sendIncidentNotifications w now inc srv st) = monitoring st"
  "incidentCheckers (sendIncidentNotifications w now inc srv st) = incidentCheckers st"
  by (cases "truthy (shouldSend st (inc_severity inc))";
      simp add: dispatch_eq dispatch_gated updateIncident_def)+

lemma dispatch_incidents:
  "incidents (sendIncidentNotifications w now inc srv st) =
     (if truthy (shouldSend st (inc_severity inc))
      then map (\<lambda>r. if inc_id r = inc_id inc then r\<lparr>notificationsSent := True\<rparr> else r)
             (incidents st)
      else incidents st)"
  by (simp add: dispatch_eq dispatch_gated updateIncident_def)

lemma handleIssue_fields [simp]:
  "servers (handleIssue w now srv iss st) = servers st"
  "settings (handleIssue w now srv iss st) = settings st"
  "monitoring (handleIssue w now srv iss st) = monitoring st"
  by (cases "findExisting st srv iss now"; simp add: handleIssue_def Let_def)+

lemma checkForIssues_fields [simp]:
  "servers (checkForIssues w now srv s st) = servers st"
  "settings (checkForIssues w now srv s st) = settings st"
  "monitoring (checkForIssues w now srv s st) = monitoring st"
proof -
  have "servers (foldl (\<lambda>acc iss. handleIssue w now srv iss acc) st xs) = servers st
      \<and> settings (foldl (\<lambda>acc iss. handleIssue w now srv iss acc) st xs) = settings st
      \<and> monitoring (foldl (\<lambda>acc iss. handleIssue w now srv iss acc) st xs) = monitoring st"
    for xs
    by (induction xs arbitrary: st) simp_all
  then show "servers (checkForIssues w now srv s st) = servers st"
    "settings (checkForIssues w now srv s st) = settings st"
    "monitoring (checkForIssues w now srv s st) = monitoring st"
    by (simp_all add: checkForIssues_def)
qed

lemma handle_miss_incidents:
  assumes "findExisting st srv iss now = None"
  shows "incidents (handleIssue w now srv iss st) =
     (if truthy (shouldSend st (i_severity iss))
      then map (\<lambda>r. if inc_id r = length (incidents st) then r\<lparr>notificationsSent := True\<rparr> else r)
             (incidents st @ [newIncident st srv iss now])
      else incidents st @ [newIncident st srv iss now])"
  using assms by (simp add: handleIssue_def Let_def dispatch_incidents newIncident_def)


section \<open>Deduplication of incidents\<close>

lemma handle_miss_created:
  assumes "findExisting st srv iss now = None"
  shows "\<exists>i\<in>set (incidents (handleIssue w now srv iss st)).
           serverId i = sid srv \<and> inc_type i = i_type iss \<and> inc_status i = ''active''
           \<and> createdAt i = now"
  using assms by (auto simp: handle_miss_incidents newIncident_def)

lemma handle_length:
  "length (incidents (handleIssue w now srv iss st)) =
     (if findExisting st srv iss now = None then length (incidents st) + 1
      else length (incidents st))"
  by (cases "findExisting st srv iss now") (simp_all add: handle_miss_incidents handle_hit)

lemma findExisting_Some:
  assumes "i \<in> set (incidents st)" "serverId i = sid srv" "inc_type i = i_type iss"
    "inc_status i = ''active''" "now - dedupWindow \<le> createdAt i"
  shows "findExisting st srv iss now \<noteq> None"
  using assms by (auto simp: findExisting_def find_None_iff dedupMatch_def)

lemma detections_absorbed:
  assumes "i \<in> set (incidents st)" "serverId i = sid srv" "inc_type i = i_type iss"
    "inc_status i = ''active''" "lo \<le> createdAt i"
    and "\<forall>t\<in>set ts. t \<le> lo + dedupWindow"
  shows "detections w srv iss ts st = st"
  using assms(6)
proof (induction ts)
  case Nil
  then show ?case by (simp add: detections_def)
next
  case (Cons t ts)
  have "t - dedupWindow \<le> createdAt i" using Cons.prems assms(5) by simp
  then have "findExisting st srv iss t \<noteq> None"
    using assms(1-4) by (rule findExisting_Some [rotated 4])
  then have "handleIssue w t srv iss st = st" by (auto simp: handle_hit)
  then show ?case using Cons by (simp add: detections_def)
qed

lemma detections_collapse:
  assumes "\<forall>t\<in>set ts. lo \<le> t \<and> t \<le> lo + dedupWindow"
  shows "detections w srv iss ts st = st
       \<or> (\<exists>t\<in>set ts. findExisting st srv iss t = None
             \<and> detections w srv iss ts st = handleIssue w t srv iss st)"
  using assms
proof (induction ts)
  case Nil
  then show ?case by (simp add: detections_def)
next
  case (Cons t ts)
  show ?case
  proof (cases "findExisting st srv iss t")
    case None
    obtain i where i: "i \<in> set (incidents (handleIssue w t srv iss st))"
      "serverId i = sid srv" "inc_type i = i_type iss" "inc_status i = ''active''"
      "createdAt i = t"
      using handle_miss_created [OF None] by blast
    have "lo \<le> createdAt i" using i(5) Cons.prems by simp
    moreover have "\<forall>t'\<in>set ts. t' \<le> lo + dedupWindow" using Cons.prems by simp
    ultimately have "detections w srv iss ts (handleIssue w t srv iss st) = handleIssue w t srv iss st"
      using i(1-4) detections_absorbed by blast
    then have "detections w srv iss (t # ts) st = handleIssue w t srv iss st"
      by (simp add: detections_def)
    with None show ?thesis by auto
  next
    case (Some e)
    then have "detections w srv iss (t # ts) st = detections w srv iss ts st"
      by (simp add: detections_def handle_hit)
    moreover have "\<forall>t\<in>set ts. lo \<le> t \<and> t \<le> lo + dedupWindow" using Cons.prems by simp
    ultimately show ?thesis using Cons.IH by auto
  qed
qed

lemma activeFor_flag:
  "activeFor srv iss (map (\<lambda>r. if inc_id r = k then r\<lparr>notificationsSent := True\<rparr> else r) xs)
     = map (\<lambda>r. if inc_id r = k then r\<lparr>notificationsSent := True\<rparr> else r) (activeFor srv iss xs)"
  by (induction xs) (auto simp: activeFor_def)

lemma activeFor_find:
  "activeFor srv iss (incidents st) = [] \<Longrightarrow> findExisting st srv iss now = None"
  by (auto simp: activeFor_def findExisting_def find_None_iff dedupMatch_def filter_empty_conv)

lemma handle_first_active:
  assumes "activeFor srv iss (incidents st) = []"
  shows "length (activeFor srv iss (incidents (handleIssue w now srv iss st))) = 1"
proof -
  have "findExisting st srv iss now = None" using assms by (rule activeFor_find)
  then have "incidents (handleIssue w now srv iss st) =
     (if truthy (shouldSend st (i_severity iss))
      then map (\<lambda>r. if inc_id r = length (incidents st) then r\<lparr>notificationsSent := True\<rparr> else r)
             (incidents st @ [newIncident st srv iss now])
      else incidents st @ [newIncident st srv iss now])"
    by (rule handle_miss_incidents)
  then have "length (activeFor srv iss (incidents (handleIssue w now srv iss st)))
      = length (activeFor srv iss (incidents st @ [newIncident st srv iss now]))"
    by (cases "truthy (shouldSend st (i_severity iss))")
       (simp_all only: if_True if_False activeFor_flag length_map)
  moreover have "activeFor srv iss (incidents st @ [newIncident st srv iss now])
      = [newIncident st srv iss now]"
    using assms by (simp add: activeFor_def newIncident_def)
  ultimately show ?thesis by simp
qed

text \<open>
  C1.  Let one issue of one server be detected at clock readings that all lie in a
  window of 30 minutes.  Whatever the store held before, the run creates at most one
  incident: it either changes nothing or acts as a single handling that found no
  incident to absorb it.  If no incident of the pair was active before, the run equals
  the handling of the first detection alone (so the later detections dispatch nothing),
  and exactly one incident of the pair is active afterwards.  For a single detection:
  one that finds an active incident of the kind created within the last 30 minutes
  leaves the whole state as it was, and an incident is created only when there is none.
\<close>

theorem dedup_window:
  assumes "\<forall>t\<in>set ts. lo \<le> t \<and> t \<le> lo + dedupWindow"
  shows "length (incidents (detections w srv iss ts st)) \<le> length (incidents st) + 1
    \<and> (detections w srv iss ts st = st
        \<or> (\<exists>t\<in>set ts. findExisting st srv iss t = None
              \<and> detections w srv iss ts st = handleIssue w t srv iss st))
    \<and> (activeFor srv iss (incidents st) = [] \<and> ts \<noteq> [] \<longrightarrow>
         detections w srv iss ts st = handleIssue w (hd ts) srv iss st
         \<and> length (activeFor srv iss (incidents (detections w srv iss ts st))) = 1)
    \<and> (\<forall>now. findExisting st srv iss now \<noteq> None \<longrightarrow> handleIssue w now srv iss st = st)
    \<and> (\<forall>now. incidents (handleIssue w now srv iss st) \<noteq> incidents st
           \<longrightarrow> findExisting st srv iss now = None)"
proof -
  note c = detections_collapse [OF assms, of w srv iss st]
  have a: "length (incidents (detections w srv iss ts st)) \<le> length (incidents st) + 1"
    using c by (auto simp: handle_length)
  have b: "detections w srv iss ts st = handleIssue w (hd ts) srv iss st
         \<and> length (activeFor srv iss (incidents (detections w srv iss ts st))) = 1"
    if e: "activeFor srv iss (incidents st) = []" and n: "ts \<noteq> []"
  proof -
    obtain t ts' where ts: "ts = t # ts'" using n by (cases ts) auto
    obtain i where i: "i \<in> set (incidents (handleIssue w t srv iss st))"
      "serverId i = sid srv" "inc_type i = i_type iss" "inc_status i = ''active''"
      "createdAt i = t"
      using handle_miss_created [OF activeFor_find [OF e]] by blast
    have "lo \<le> createdAt i" "\<forall>t'\<in>set ts'. t' \<le> lo + dedupWindow"
      using assms i(5) ts by simp_all
    then have "detections w srv iss ts' (handleIssue w t srv iss st) = handleIssue w t srv iss st"
      using i(1-4) detections_absorbed by blast
    then have "detections w srv iss ts st = handleIssue w (hd ts) srv iss st"
      using ts by (simp add: detections_def)
    then show ?thesis using handle_first_active [OF e] ts by simp
  qed
  have d: "handleIssue w now srv iss st = st" if "findExisting st srv iss now \<noteq> None" for now
    using that by (auto simp: handle_hit)
  have e: "findExisting st srv iss now = None"
    if "incidents (handleIssue w now srv iss st) \<noteq> incidents st" for now
    using that d by (cases "findExisting st srv iss now") auto
  from a b c d e show ?thesis by blast
qed


theorem dedup_window_witness:
  "(900000::int) \<le> 400 + dedupWindow
   \<and> findExisting
         (handleIssue fanWorld 400 exServer (offlineIssue exServer timeoutStatus) fanState)
         exServer (offlineIssue exServer timeoutStatus) 300400 \<noteq> None
   \<and> handleIssue fanWorld 300400 exServer (offlineIssue exServer timeoutStatus)
         (handleIssue fanWorld 400 exServer (offlineIssue exServer timeoutStatus) fanState)
       = handleIssue fanWorld 400 exServer (offlineIssue exServer timeoutStatus) fanState
   \<and> length (incidents (detections fanWorld exServer (offlineIssue exServer timeoutStatus)
         [400, 300400, 900000] fanState)) \<le> 1
   \<and> detections fanWorld exServer (offlineIssue exServer timeoutStatus)
         [400, 300400, 900000] fanState
       = handleIssue fanWorld 400 exServer (offlineIssue exServer timeoutStatus) fanState
   \<and> length (activeFor exServer (offlineIssue exServer timeoutStatus)
         (incidents (detections fanWorld exServer (offlineIssue exServer timeoutStatus)
            [400, 300400, 900000] fanState))) = 1"
proof -
  have h: "\<forall>t\<in>set [400, 300400, 900000]. (400::int) \<le> t \<and> t \<le> 400 + dedupWindow"
    by (simp add: dedupWindow_def)
  have e: "incidents fanState = []"
    by (simp add: fanState_def emptyState_def)
  have a: "activeFor exServer (offlineIssue exServer timeoutStatus) (incidents fanState) = []"
    by (simp add: e activeFor_def)
  note T = dedup_window [OF h, of fanWorld exServer "offlineIssue exServer timeoutStatus" fanState]
  have c1: "length (incidents (detections fanWorld exServer (offlineIssue exServer timeoutStatus)
         [400, 300400, 900000] fanState)) \<le> 1"
    using T [THEN conjunct1] by (simp only: e list.size add_0)
  have p: "activeFor exServer (offlineIssue exServer timeoutStatus) (incidents fanState) = []
         \<and> [400, 300400, 900000] \<noteq> ([]::int list)"
    using a by simp
  have c3: "detections fanWorld exServer (offlineIssue exServer timeoutStatus)
         [400, 300400, 900000] fanState
       = handleIssue fanWorld (hd [400, 300400, 900000]) exServer
           (offlineIssue exServer timeoutStatus) fanState
     \<and> length (activeFor exServer (offlineIssue exServer timeoutStatus)
         (incidents (detections fanWorld exServer (offlineIssue exServer timeoutStatus)
            [400, 300400, 900000] fanState))) = 1"
    using T [THEN conjunct2, THEN conjunct2, THEN conjunct1, THEN mp, OF p] .
  have hd: "hd [400, 300400, 900000] = (400::int)" by simp
  have w: "(900000::int) \<le> 400 + dedupWindow" by (simp add: dedupWindow_def)
  have none: "findExisting fanState exServer (offlineIssue exServer timeoutStatus) 400 = None"
    using a by (rule activeFor_find)
  obtain i where i:
    "i \<in> set (incidents (handleIssue fanWorld 400 exServer
                            (offlineIssue exServer timeoutStatus) fanState))"
    "serverId i = sid exServer" "inc_type i = i_type (offlineIssue exServer timeoutStatus)"
    "inc_status i = ''active''" "createdAt i = 400"
    using handle_miss_created [OF none] by blast
  have "300400 - dedupWindow \<le> createdAt i" using i(5) by (simp add: dedupWindow_def)
  with i(1-4) have f: "findExisting
         (handleIssue fanWorld 400 exServer (offlineIssue exServer timeoutStatus) fanState)
         exServer (offlineIssue exServer timeoutStatus) 300400 \<noteq> None"
    by (rule findExisting_Some)
  note T2 = dedup_window [OF h, of fanWorld exServer "offlineIssue exServer timeoutStatus"
      "handleIssue fanWorld 400 exServer (offlineIssue exServer timeoutStatus) fanState"]
  have again: "handleIssue fanWorld 300400 exServer (offlineIssue exServer timeoutStatus)
         (handleIssue fanWorld 400 exServer (offlineIssue exServer timeoutStatus) fanState)
       = handleIssue fanWorld 400 exServer (offlineIssue exServer timeoutStatus) fanState"
    using T2 f by blast
  from w f again c1 c3 [unfolded hd] show ?thesis by blast
qed

lemma saveServer_fields [simp]:
  "incidents (saveServer doc st) = incidents st"
  "settings (saveServer doc st) = settings st"
  "timers (saveServer doc st) = timers st"
  "monitoring (saveServer doc st) = monitoring st"
  by (simp_all add: saveServer_def)

lemma refused_probe:
  assumes "now - start \<le> 1000"
  shows "snd (checkServer w (Threw msg) start now srv st) =
     handleIssue w now
       (srv\<lparr>lastStatus := Some (errStatus msg (now - start) now),
            sstats := checkedStats srv (errStatus msg (now - start) now)\<rparr>)
       (offlineIssue
          (srv\<lparr>lastStatus := Some (errStatus msg (now - start) now),
               sstats := checkedStats srv (errStatus msg (now - start) now)\<rparr>)
          (errStatus msg (now - start) now))
       (saveServer
          (srv\<lparr>lastStatus := Some (errStatus msg (now - start) now),
               sstats := checkedStats srv (errStatus msg (now - start) now)\<rparr>)
          st)"
proof -
  have "detectIssues srv' (errStatus msg (now - start) now)
      = [offlineIssue srv' (errStatus msg (now - start) now)]" for srv'
    using assms
    by (simp add: detectIssues_def offlineGuard_def latencyGuard_def capacityGuard_def
        versionGuard_def errStatus_def)
  then show ?thesis
    by (simp add: checkServer_eq probeResult_def Let_def checkForIssues_def)
qed

text \<open>
  C6, for two failed probes of one server five minutes apart.  The first creates the
  incident; the second finds it, and after it the rows of the incidents collection are
  those left by the first: no timestamp of the row has advanced.
\<close>

theorem second_probe_refreshes_nothing:
  "length (incidents (snd firstProbe)) = 1
   \<and> map createdAt (incidents (snd firstProbe)) = [400]
   \<and> incidents (snd secondProbe) = incidents (snd firstProbe)"
proof -
  let ?s1 = "errStatus ''connect ECONNREFUSED'' (400 - 0) 400"
  let ?d1 = "exServer\<lparr>lastStatus := Some ?s1, sstats := checkedStats exServer ?s1\<rparr>"
  let ?s2 = "errStatus ''connect ECONNREFUSED'' (300400 - 300000) 300400"
  let ?d2 = "(fst firstProbe)\<lparr>lastStatus := Some ?s2, sstats := checkedStats (fst firstProbe) ?s2\<rparr>"
  have e0: "incidents fanState = []"
    by (simp add: fanState_def emptyState_def)
  have e: "incidents (saveServer ?d1 fanState) = []"
    by (simp add: e0)
  have none: "findExisting (saveServer ?d1 fanState) ?d1 (offlineIssue ?d1 ?s1) 400 = None"
    by (simp add: findExisting_def e0)
  have f: "snd firstProbe =
      handleIssue fanWorld 400 ?d1 (offlineIssue ?d1 ?s1) (saveServer ?d1 fanState)"
    unfolding firstProbe_def by (rule refused_probe) simp
  have l: "length (incidents (snd firstProbe)) = 1"
    unfolding f by (simp only: handle_length none e) simp
  obtain i where i: "i \<in> set (incidents (snd firstProbe))" "serverId i = sid ?d1"
    "inc_type i = i_type (offlineIssue ?d1 ?s1)" "inc_status i = ''active''" "createdAt i = 400"
    unfolding f using handle_miss_created [OF none] by blast
  have one: "incidents (snd firstProbe) = [i]"
    using l i(1) by (cases "incidents (snd firstProbe)") auto
  have sid1: "sid (fst firstProbe) = sid ?d1"
    by (simp add: firstProbe_def checkServer_eq Let_def)
  have "findExisting (saveServer ?d2 (snd firstProbe)) ?d2 (offlineIssue ?d2 ?s2) 300400 \<noteq> None"
    using i(2-5) sid1
    by (simp add: findExisting_def one dedupMatch_def dedupWindow_def offlineIssue_def)
  then have hit: "handleIssue fanWorld 300400 ?d2 (offlineIssue ?d2 ?s2)
      (saveServer ?d2 (snd firstProbe)) = saveServer ?d2 (snd firstProbe)"
    by (auto simp: handle_hit)
  have "snd secondProbe =
      handleIssue fanWorld 300400 ?d2 (offlineIssue ?d2 ?s2) (saveServer ?d2 (snd firstProbe))"
    unfolding secondProbe_def by (rule refused_probe) simp
  then have "incidents (snd secondProbe) = incidents (snd firstProbe)"
    by (simp only: hit saveServer_fields)
  then show ?thesis using l one i(5) by simp
qed

section \<open>One check\<close>




section \<open>Recovery watcher\<close>

lemmas scenario_defs = watcherTick_def recovered_def externallyResolved_def firstProbe_def
  fanState_def emptyState_def fanWorld_def readyWorld_def exServer_def healthyReply_def

lemmas engine_defs = checkServer_eq Let_def probeResult_def checkForIssues_def rule_defs
  errStatus_def okStatus_def checkedStats_def jsAdd_def nearestDouble_exact errorText_def
  handleIssue_def findExisting_def dedupMatch_def dedupWindow_def newIncident_def
  shouldSend_def getSetting_def dispatch_incidents
  setupRecoveryCheck_def setInterval_def resolveRoute_def updateIncident_def saveServer_def
  fireRecovery_def recoveryCallback_def clearInterval_def


lemma attempt_fields [simp]:
  "incidents (snd (attempt w c r m st)) = incidents st"
  "notifications (snd (attempt w c r m st)) = notifications st"
  "settings (snd (attempt w c r m st)) = settings st"
  "servers (snd (attempt w c r m st)) = servers st"
  "timers (snd (attempt w c r m st)) = timers st"
  "monitoring (snd (attempt w c r m st)) = monitoring st"
  "incidentCheckers (snd (attempt w c r m st)) = incidentCheckers st"
  by (simp_all add: attempt_def)

lemma recoveryLoop_fields [simp]:
  "incidents (snd (recoveryLoop w m cs st)) = incidents st"
  "notifications (snd (recoveryLoop w m cs st)) = notifications st"
  "settings (snd (recoveryLoop w m cs st)) = settings st"
  "servers (snd (recoveryLoop w m cs st)) = servers st"
  "timers (snd (recoveryLoop w m cs st)) = timers st"
  "monitoring (snd (recoveryLoop w m cs st)) = monitoring st"
  "incidentCheckers (snd (recoveryLoop w m cs st)) = incidentCheckers st"
  by (induction cs arbitrary: st; simp add: attempt_def split: option.splits)+

lemma sendRecovery_fields [simp]:
  "incidents (sendRecoveryNotification w srv inc st) = incidents st"
  "notifications (sendRecoveryNotification w srv inc st) = notifications st"
  "settings (sendRecoveryNotification w srv inc st) = settings st"
  "servers (sendRecoveryNotification w srv inc st) = servers st"
  "timers (sendRecoveryNotification w srv inc st) = timers st"
  "monitoring (sendRecoveryNotification w srv inc st) = monitoring st"
  "incidentCheckers (sendRecoveryNotification w srv inc st) = incidentCheckers st"
  by (simp_all add: sendRecoveryNotification_def Let_def attempt_def split: option.splits)

lemma clearInterval_fields [simp]:
  "incidents (clearInterval h st) = incidents st"
  "notifications (clearInterval h st) = notifications st"
  "settings (clearInterval h st) = settings st"
  "servers (clearInterval h st) = servers st"
  "monitoring (clearInterval h st) = monitoring st"
  "incidentCheckers (clearInterval h st) = incidentCheckers st"
  "sendLog (clearInterval h st) = sendLog st"
  "length (timers (clearInterval h st)) = length (timers st)"
  by (simp_all add: clearInterval_def)

lemma clearInterval_active:
  "h < length (timers st) \<Longrightarrow> \<not> active (timers (clearInterval h st) ! h)"
  by (simp add: clearInterval_def)

lemma resolveRoute_fields [simp]:
  "timers (resolveRoute t i st) = timers st"
  "incidentCheckers (resolveRoute t i st) = incidentCheckers st"
  "servers (resolveRoute t i st) = servers st"
  "settings (resolveRoute t i st) = settings st"
  "sendLog (resolveRoute t i st) = sendLog st"
  by (simp_all add: resolveRoute_def updateIncident_def split: option.splits)

lemma fire_offline:
  assumes "\<not> targetOnline st srv" "job (timers st ! h) = RecoveryJob srv inc"
  shows "fireRecovery w now h st = st"
  using assms
  by (simp add: fireRecovery_def recoveryCallback_def targetOnline_def split: option.splits)

lemma fire_online:
  assumes "h < length (timers st)" "active (timers st ! h)"
    "job (timers st ! h) = RecoveryJob srv inc" "targetOnline st srv"
  shows "fireRecovery w now h st =
     sendRecoveryNotification w srv inc
       (updateIncident (inc_id inc) (\<lambda>r. r\<lparr>inc_status := ''resolved'', resolvedAt := Some now\<rparr>)
          ((clearInterval h st)
             \<lparr>incidentCheckers := (incidentCheckers st)(inc_id inc := None)\<rparr>))"
  using assms
  by (auto simp: fireRecovery_def recoveryCallback_def targetOnline_def Let_def
      split: option.splits)

lemma fire_inactive:
  "h < length (timers st) \<Longrightarrow> \<not> active (timers st ! h) \<Longrightarrow> fireRecovery w now h st = st"
  by (simp add: fireRecovery_def)

text \<open>
  C2, as the code has it.  The callback of an armed recovery timer reads the stored
  status of its server and nothing of the incident's row.  While the server is not
  stored as online the callback changes nothing.  At the first firing that finds it
  online the callback clears its own timer and its registry entry, writes
  \<open>resolved\<close> and \<open>resolvedAt = now\<close> into the incident's row, whatever the row held, and
  runs the recovery notification; the result is the same whether or not the resolve
  route had resolved the incident before, and a later firing of the cleared timer does
  nothing.  The resolve route leaves the timer table and the registry of watchers as
  they are.
\<close>

theorem recovery_watcher:
  assumes "h < length (timers st)" "active (timers st ! h)"
    "job (timers st ! h) = RecoveryJob srv inc"
  shows "(\<not> targetOnline st srv \<longrightarrow> fireRecovery w now h st = st)
    \<and> (targetOnline st srv \<longrightarrow>
         fireRecovery w now h st =
           sendRecoveryNotification w srv inc
             (updateIncident (inc_id inc)
                (\<lambda>r. r\<lparr>inc_status := ''resolved'', resolvedAt := Some now\<rparr>)
                ((clearInterval h st)
                   \<lparr>incidentCheckers := (incidentCheckers st)(inc_id inc := None)\<rparr>))
         \<and> incidents (fireRecovery w now h st) =
             map (\<lambda>r. if inc_id r = inc_id inc
                       then r\<lparr>inc_status := ''resolved'', resolvedAt := Some now\<rparr> else r)
               (incidents st)
         \<and> \<not> active (timers (fireRecovery w now h st) ! h)
         \<and> incidentCheckers (fireRecovery w now h st) (inc_id inc) = None
         \<and> fireRecovery w' now' h (fireRecovery w now h st) = fireRecovery w now h st
         \<and> fireRecovery w now h (resolveRoute t (inc_id inc) st) = fireRecovery w now h st)
    \<and> timers (resolveRoute t i st) = timers st
    \<and> incidentCheckers (resolveRoute t i st) = incidentCheckers st"
proof -
  have off: "fireRecovery w now h st = st" if "\<not> targetOnline st srv"
    using that assms(3) by (rule fire_offline)
  have on: "fireRecovery w now h st =
           sendRecoveryNotification w srv inc
             (updateIncident (inc_id inc)
                (\<lambda>r. r\<lparr>inc_status := ''resolved'', resolvedAt := Some now\<rparr>)
                ((clearInterval h st)
                   \<lparr>incidentCheckers := (incidentCheckers st)(inc_id inc := None)\<rparr>))"
    if "targetOnline st srv"
    using assms that by (rule fire_online)
  have inc: "incidents (fireRecovery w now h st) =
             map (\<lambda>r. if inc_id r = inc_id inc
                       then r\<lparr>inc_status := ''resolved'', resolvedAt := Some now\<rparr> else r)
               (incidents st)" if "targetOnline st srv"
    by (simp add: on [OF that] updateIncident_def)
  have tm: "timers (fireRecovery w now h st) = timers (clearInterval h st)"
    if "targetOnline st srv"
    by (simp add: on [OF that] updateIncident_def)
  have act: "\<not> active (timers (fireRecovery w now h st) ! h)" if "targetOnline st srv"
    using assms(1) by (simp add: tm [OF that] clearInterval_active)
  have chk: "incidentCheckers (fireRecovery w now h st) (inc_id inc) = None"
    if "targetOnline st srv"
    by (simp add: on [OF that] updateIncident_def)
  have again: "fireRecovery w' now' h (fireRecovery w now h st) = fireRecovery w now h st"
    if "targetOnline st srv"
  proof (rule fire_inactive)
    show "h < length (timers (fireRecovery w now h st))"
      using assms(1) by (simp add: tm [OF that])
    show "\<not> active (timers (fireRecovery w now h st) ! h)" using act [OF that] .
  qed
  have ext: "fireRecovery w now h (resolveRoute t (inc_id inc) st) = fireRecovery w now h st"
    if o: "targetOnline st srv"
  proof -
    have o': "targetOnline (resolveRoute t (inc_id inc) st) srv"
      using o by (simp add: targetOnline_def)
    have "fireRecovery w now h (resolveRoute t (inc_id inc) st) =
           sendRecoveryNotification w srv inc
             (updateIncident (inc_id inc)
                (\<lambda>r. r\<lparr>inc_status := ''resolved'', resolvedAt := Some now\<rparr>)
                ((clearInterval h (resolveRoute t (inc_id inc) st))
                   \<lparr>incidentCheckers :=
                      (incidentCheckers (resolveRoute t (inc_id inc) st))(inc_id inc := None)\<rparr>))"
      using assms o' by (intro fire_online) simp_all
    also have "updateIncident (inc_id inc)
                (\<lambda>r. r\<lparr>inc_status := ''resolved'', resolvedAt := Some now\<rparr>)
                ((clearInterval h (resolveRoute t (inc_id inc) st))
                   \<lparr>incidentCheckers :=
                      (incidentCheckers (resolveRoute t (inc_id inc) st))(inc_id inc := None)\<rparr>)
        = updateIncident (inc_id inc)
                (\<lambda>r. r\<lparr>inc_status := ''resolved'', resolvedAt := Some now\<rparr>)
                ((clearInterval h st)
                   \<lparr>incidentCheckers := (incidentCheckers st)(inc_id inc := None)\<rparr>)"
      by (auto simp: resolveRoute_def updateIncident_def clearInterval_def comp_def
          split: option.splits intro!: map_cong)
    finally show ?thesis by (simp add: on [OF o])
  qed
  from off on inc act chk again ext show ?thesis by simp
qed


text \<open>
  C2 as it is written fails.  After the resolve route has resolved incident 0 at
  500000 its watcher is still armed and registered; when the server is back, the
  watcher's firing at 660000 resolves the incident again, replacing \<open>resolvedAt\<close>, and
  sends the recovery messages.
\<close>

theorem watcher_after_external_resolution_counterexample:
  "map incidentSummary (incidents externallyResolved) = [(0, ''resolved'', Some 500000)]
   \<and> map active (timers externallyResolved) = [True]
   \<and> incidentCheckers externallyResolved 0 = Some 0
   \<and> map incidentSummary (incidents watcherTick) = [(0, ''resolved'', Some 660000)]
   \<and> drop (length (sendLog recovered)) (sendLog watcherTick) =
       [(Email, JStr ''ops@example.net'', RecoveryMail ''Lobby'' 400),
        (Telegram, JStr ''100'', RecoveryText ''Lobby'' 400),
        (Telegram, JStr ''300'', RecoveryText ''Lobby'' 400)]"
proof (intro conjI)
  show "map incidentSummary (incidents externallyResolved) = [(0, ''resolved'', Some 500000)]"
    by (simp add: scenario_defs engine_defs incidentSummary_def)
  show "map active (timers externallyResolved) = [True]"
    by (simp add: scenario_defs engine_defs)
  show "incidentCheckers externallyResolved 0 = Some 0"
    by (simp add: scenario_defs engine_defs)
  show "map incidentSummary (incidents watcherTick) = [(0, ''resolved'', Some 660000)]"
    by (simp add: scenario_defs engine_defs incidentSummary_def)
  show "drop (length (sendLog recovered)) (sendLog watcherTick) =
       [(Email, JStr ''ops@example.net'', RecoveryMail ''Lobby'' 400),
        (Telegram, JStr ''100'', RecoveryText ''Lobby'' 400),
        (Telegram, JStr ''300'', RecoveryText ''Lobby'' 400)]"
    by (simp add: scenario_defs engine_defs sendRecoveryNotification_def attempt_def
        sendEmail_def sendTelegramMessage_def subscribedChats_def subscriptionPrefix_def)
qed

theorem recovery_watcher_witness:
  "0 < length (timers recovered) \<and> active (timers recovered ! 0)
   \<and> job (timers recovered ! 0) = RecoveryJob (fst firstProbe) watchedIncident
   \<and> targetOnline recovered (fst firstProbe)
   \<and> \<not> active (timers (fireRecovery readyWorld 660000 0 recovered) ! 0)
   \<and> map incidentSummary (incidents (fireRecovery readyWorld 660000 0 recovered))
       = [(0, ''resolved'', Some 660000)]
   \<and> job (timers (snd firstProbe) ! 0) = RecoveryJob (fst firstProbe) watchedIncident
   \<and> \<not> targetOnline (snd firstProbe) (fst firstProbe)
   \<and> fireRecovery readyWorld 60400 0 (snd firstProbe) = snd firstProbe"
proof -
  have t1: "timers (snd firstProbe) =
      [\<lparr> job = RecoveryJob (fst firstProbe) watchedIncident, period = 60000, active = True \<rparr>]"
    by (simp add: watchedIncident_def scenario_defs engine_defs)
  have t2: "timers recovered = timers (snd firstProbe)"
    by (simp add: recovered_def externallyResolved_def healthyReply_def checkServer_eq Let_def
        probeResult_def checkForIssues_def rule_defs okStatus_def)
  have a: "0 < length (timers recovered)" "active (timers recovered ! 0)"
    "job (timers recovered ! 0) = RecoveryJob (fst firstProbe) watchedIncident"
    by (simp_all add: t2 t1)
  have b: "0 < length (timers (snd firstProbe))" "active (timers (snd firstProbe) ! 0)"
    "job (timers (snd firstProbe) ! 0) = RecoveryJob (fst firstProbe) watchedIncident"
    by (simp_all add: t1)
  have on: "targetOnline recovered (fst firstProbe)"
    by (simp add: targetOnline_def scenario_defs engine_defs)
  have off: "\<not> targetOnline (snd firstProbe) (fst firstProbe)"
    by (simp add: targetOnline_def scenario_defs engine_defs)
  have i: "map incidentSummary (incidents recovered) = [(0, ''resolved'', Some 500000)]"
    by (simp add: scenario_defs engine_defs incidentSummary_def)
  have k: "inc_id watchedIncident = 0"
    by (simp add: watchedIncident_def newIncident_def fanState_def emptyState_def)
  note A = recovery_watcher [OF a, of readyWorld 660000]
  note B = recovery_watcher [OF b, of readyWorld 60400]
  have r1: "\<not> active (timers (fireRecovery readyWorld 660000 0 recovered) ! 0)"
    using A on by blast
  have "incidents (fireRecovery readyWorld 660000 0 recovered) =
          map (\<lambda>r. if inc_id r = inc_id watchedIncident
                    then r\<lparr>inc_status := ''resolved'', resolvedAt := Some 660000\<rparr> else r)
            (incidents recovered)"
    using A on by blast
  then have r2: "map incidentSummary (incidents (fireRecovery readyWorld 660000 0 recovered))
       = [(0, ''resolved'', Some 660000)]"
    using i by (auto simp: k incidentSummary_def)
  have r3: "fireRecovery readyWorld 60400 0 (snd firstProbe) = snd firstProbe"
    using B off by blast
  from a on r1 r2 b(3) off r3 show ?thesis by blast
qed

section \<open>Poll timers\<close>

lemma handle_miss_offline:
  assumes "findExisting st srv iss now = None" "i_type iss = ''server_offline''"
  shows "handleIssue w now srv iss st =
     setupRecoveryCheck srv (newIncident st srv iss now)
       (sendIncidentNotifications w now (newIncident st srv iss now) srv
          (st\<lparr>incidents := incidents st @ [newIncident st srv iss now]\<rparr>))"
  unfolding handleIssue_def Let_def using assms by simp

lemma handle_miss_other:
  assumes "findExisting st srv iss now = None" "i_type iss \<noteq> ''server_offline''"
  shows "handleIssue w now srv iss st =
     sendIncidentNotifications w now (newIncident st srv iss now) srv
       (st\<lparr>incidents := incidents st @ [newIncident st srv iss now]\<rparr>)"
  unfolding handleIssue_def Let_def using assms by simp

lemma handleIssue_timers:
  "\<exists>ts. timers (handleIssue w now srv iss st) = timers st @ ts
        \<and> (\<forall>t\<in>set ts. \<forall>s. job t \<noteq> CheckJob s)"
proof (cases "findExisting st srv iss now")
  case None
  show ?thesis
  proof (cases "i_type iss = ''server_offline''")
    case True
    have "timers (handleIssue w now srv iss st) =
        timers st @ [\<lparr> job = RecoveryJob srv (newIncident st srv iss now), period = 60000,
                        active = True \<rparr>]"
      unfolding handle_miss_offline [OF None True] by simp
    then show ?thesis
      by (intro exI [of _ "[\<lparr> job = RecoveryJob srv (newIncident st srv iss now),
                               period = 60000, active = True \<rparr>]"]) simp
  next
    case False
    have "timers (handleIssue w now srv iss st) = timers st"
      unfolding handle_miss_other [OF None False] by simp
    then show ?thesis by (intro exI [of _ "[]"]) simp
  qed
next
  case (Some e)
  then have "timers (handleIssue w now srv iss st) = timers st"
    by (simp add: handle_hit)
  then show ?thesis by (intro exI [of _ "[]"]) simp
qed

lemma checkForIssues_timers:
  "\<exists>ts. timers (checkForIssues w now srv s st) = timers st @ ts
        \<and> (\<forall>t\<in>set ts. \<forall>s. job t \<noteq> CheckJob s)"
proof -
  have "\<exists>ts. timers (foldl (\<lambda>acc iss. handleIssue w now srv iss acc) st xs) = timers st @ ts
        \<and> (\<forall>t\<in>set ts. \<forall>s. job t \<noteq> CheckJob s)" for xs
  proof (induction xs arbitrary: st)
    case Nil
    show ?case by (intro exI [of _ "[]"]) simp
  next
    case (Cons x xs)
    obtain t1 where t1: "timers (handleIssue w now srv x st) = timers st @ t1"
      "\<forall>t\<in>set t1. \<forall>s. job t \<noteq> CheckJob s"
      using handleIssue_timers by blast
    obtain t2 where t2: "timers (foldl (\<lambda>acc iss. handleIssue w now srv iss acc)
          (handleIssue w now srv x st) xs) = timers (handleIssue w now srv x st) @ t2"
      "\<forall>t\<in>set t2. \<forall>s. job t \<noteq> CheckJob s"
      using Cons.IH by blast
    have "timers (foldl (\<lambda>acc iss. handleIssue w now srv iss acc) st (x # xs))
        = timers st @ (t1 @ t2)"
      using t1(1) t2(1) by simp
    moreover have "\<forall>t\<in>set (t1 @ t2). \<forall>s. job t \<noteq> CheckJob s"
      using t1(2) t2(2) by auto
    ultimately show ?case by (intro exI [of _ "t1 @ t2"] conjI)
  qed
  then show ?thesis by (simp only: checkForIssues_def)
qed

lemma checkServer_timers:
  "\<exists>ts. timers (snd (checkServer w pr a b srv st)) = timers st @ ts
        \<and> (\<forall>t\<in>set ts. \<forall>s. job t \<noteq> CheckJob s)"
proof -
  let ?s = "probeResult pr (b - a) b"
  let ?doc = "srv\<lparr>lastStatus := Some ?s, sstats := checkedStats srv ?s\<rparr>"
  have e: "snd (checkServer w pr a b srv st) = checkForIssues w b ?doc ?s (saveServer ?doc st)"
    by (simp add: checkServer_eq Let_def)
  obtain ts where ts: "timers (checkForIssues w b ?doc ?s (saveServer ?doc st))
      = timers (saveServer ?doc st) @ ts" "\<forall>t\<in>set ts. \<forall>s. job t \<noteq> CheckJob s"
    using checkForIssues_timers by blast
  have "timers (snd (checkServer w pr a b srv st)) = timers st @ ts"
    unfolding e ts(1) by simp
  then show ?thesis using ts(2) by (intro exI [of _ ts] conjI)
qed

lemma startMonitoring_shape:
  "\<exists>ts. timers (startMonitoring w pr a b srv st) =
          timers (case monitoring st (sid srv) of Some h \<Rightarrow> clearInterval h st | None \<Rightarrow> st)
          @ \<lparr> job = CheckJob (sid srv), period = jsMul (checkInterval srv) 1000, active = True \<rparr> # ts
        \<and> (\<forall>t\<in>set ts. \<forall>s. job t \<noteq> CheckJob s)
        \<and> monitoring (startMonitoring w pr a b srv st)
            = (monitoring st)(sid srv \<mapsto> length (timers st))"
proof -
  let ?st1 = "case monitoring st (sid srv) of Some h \<Rightarrow> clearInterval h st | None \<Rightarrow> st"
  let ?st3 = "?st1\<lparr>timers := timers ?st1
                 @ [\<lparr> job = CheckJob (sid srv), period = jsMul (checkInterval srv) 1000, active = True \<rparr>],
               monitoring := (monitoring ?st1)(sid srv \<mapsto> length (timers ?st1))\<rparr>"
  have s: "startMonitoring w pr a b srv st = snd (checkServer w pr a b srv ?st3)"
    by (simp add: startMonitoring_def setInterval_def Let_def)
  have l: "length (timers ?st1) = length (timers st)" "monitoring ?st1 = monitoring st"
    by (simp_all split: option.splits)
  obtain ts where ts: "timers (snd (checkServer w pr a b srv ?st3)) = timers ?st3 @ ts"
    "\<forall>t\<in>set ts. \<forall>s. job t \<noteq> CheckJob s"
    using checkServer_timers by blast
  have m: "monitoring (snd (checkServer w pr a b srv ?st3)) = monitoring ?st3"
    by (simp add: checkServer_eq Let_def)
  have "timers (startMonitoring w pr a b srv st) =
          timers ?st1
          @ \<lparr> job = CheckJob (sid srv), period = jsMul (checkInterval srv) 1000, active = True \<rparr> # ts"
    unfolding s ts(1) by simp
  moreover have "monitoring (startMonitoring w pr a b srv st)
            = (monitoring st)(sid srv \<mapsto> length (timers st))"
    unfolding s m using l by simp
  ultimately show ?thesis using ts(2) by (intro exI [of _ ts] conjI)
qed

lemma clearInterval_nth:
  "h' < length (timers st) \<Longrightarrow>
     timers (clearInterval h st) ! h' =
       (if h' = h then (timers st ! h')\<lparr>active := False\<rparr> else timers st ! h')"
  by (simp add: clearInterval_def nth_list_update)

lemma single_list: "distinct xs \<Longrightarrow> set xs = {n} \<Longrightarrow> xs = [n]"
  by (cases xs) (auto simp: insert_eq_iff dest: subset_singletonD)

lemma set_checkTimers:
  "set (checkTimers st s) =
     {h. h < length (timers st) \<and> active (timers st ! h) \<and> job (timers st ! h) = CheckJob s}"
  by (auto simp: checkTimers_def)

lemma distinct_checkTimers: "distinct (checkTimers st s)"
  by (simp add: checkTimers_def)

lemma start_armed:
  assumes ok: "registryOk st"
    and a: "h' < length (timers (startMonitoring w pr a b srv st))"
      "active (timers (startMonitoring w pr a b srv st) ! h')"
      "job (timers (startMonitoring w pr a b srv st) ! h') = CheckJob s"
  shows "(h' = length (timers st) \<and> s = sid srv)
       \<or> (h' < length (timers st) \<and> active (timers st ! h') \<and> job (timers st ! h') = CheckJob s
           \<and> s \<noteq> sid srv)"
proof -
  let ?st1 = "case monitoring st (sid srv) of Some h \<Rightarrow> clearInterval h st | None \<Rightarrow> st"
  let ?new = "\<lparr> job = CheckJob (sid srv), period = jsMul (checkInterval srv) 1000, active = True \<rparr>"
  obtain ts where ts: "timers (startMonitoring w pr a b srv st) = timers ?st1 @ ?new # ts"
    "\<forall>t\<in>set ts. \<forall>s. job t \<noteq> CheckJob s"
    using startMonitoring_shape by blast
  have l: "length (timers ?st1) = length (timers st)" by (simp split: option.splits)
  consider "h' < length (timers st)" | "h' = length (timers st)" | "h' > length (timers st)"
    by linarith
  then show ?thesis
  proof cases
    case 1
    then have e: "timers (startMonitoring w pr a b srv st) ! h' = timers ?st1 ! h'"
      using ts(1) l by (simp add: nth_append)
    have old: "active (timers st ! h')" "job (timers st ! h') = CheckJob s"
      and nreg: "monitoring st (sid srv) \<noteq> Some h'"
      using a(2,3) 1 unfolding e
      by (auto simp: clearInterval_nth split: option.splits if_splits)
    have "monitoring st s = Some h'" using ok 1 old by (auto simp: registryOk_def)
    then have "s \<noteq> sid srv" using nreg by auto
    then show ?thesis using 1 old by simp
  next
    case 2
    then have "timers (startMonitoring w pr a b srv st) ! h' = ?new"
      using ts(1) l by (simp add: nth_append)
    then show ?thesis using a(3) 2 by simp
  next
    case 3
    then have "timers (startMonitoring w pr a b srv st) ! h' \<in> set ts"
      using ts(1) l a(1) by (auto simp: nth_append nth_Cons')
    then show ?thesis using ts(2) a(3) by auto
  qed
qed

lemma start_new_armed:
  "length (timers st) < length (timers (startMonitoring w pr a b srv st))
   \<and> active (timers (startMonitoring w pr a b srv st) ! length (timers st))
   \<and> job (timers (startMonitoring w pr a b srv st) ! length (timers st)) = CheckJob (sid srv)"
proof -
  let ?st1 = "case monitoring st (sid srv) of Some h \<Rightarrow> clearInterval h st | None \<Rightarrow> st"
  let ?new = "\<lparr> job = CheckJob (sid srv), period = jsMul (checkInterval srv) 1000, active = True \<rparr>"
  obtain ts where ts: "timers (startMonitoring w pr a b srv st) = timers ?st1 @ ?new # ts"
    using startMonitoring_shape by blast
  have l: "length (timers ?st1) = length (timers st)" by (simp split: option.splits)
  show ?thesis using ts l by (simp add: nth_append)
qed

lemma start_registryOk:
  assumes "registryOk st"
  shows "registryOk (startMonitoring w pr a b srv st)"
proof -
  have m: "monitoring (startMonitoring w pr a b srv st)
            = (monitoring st)(sid srv \<mapsto> length (timers st))"
    using startMonitoring_shape by blast
  show ?thesis
    unfolding registryOk_def
  proof (intro allI impI)
    fix h s
    assume "h < length (timers (startMonitoring w pr a b srv st))
          \<and> active (timers (startMonitoring w pr a b srv st) ! h)
          \<and> job (timers (startMonitoring w pr a b srv st) ! h) = CheckJob s"
    then have "(h = length (timers st) \<and> s = sid srv)
       \<or> (h < length (timers st) \<and> active (timers st ! h) \<and> job (timers st ! h) = CheckJob s
           \<and> s \<noteq> sid srv)"
      using start_armed [OF assms] by blast
    then show "monitoring (startMonitoring w pr a b srv st) s = Some h"
      using assms by (auto simp: m registryOk_def)
  qed
qed

lemma start_checkTimers:
  assumes "registryOk st"
  shows "checkTimers (startMonitoring w pr a b srv st) (sid srv) = [length (timers st)]"
proof (rule single_list [OF distinct_checkTimers])
  show "set (checkTimers (startMonitoring w pr a b srv st) (sid srv)) = {length (timers st)}"
  proof (rule set_eqI, rule iffI)
    fix h
    assume "h \<in> set (checkTimers (startMonitoring w pr a b srv st) (sid srv))"
    then have "h < length (timers (startMonitoring w pr a b srv st))"
      "active (timers (startMonitoring w pr a b srv st) ! h)"
      "job (timers (startMonitoring w pr a b srv st) ! h) = CheckJob (sid srv)"
      by (simp_all add: set_checkTimers)
    then have "(h = length (timers st) \<and> sid srv = sid srv)
       \<or> (h < length (timers st) \<and> active (timers st ! h)
           \<and> job (timers st ! h) = CheckJob (sid srv) \<and> sid srv \<noteq> sid srv)"
      by (rule start_armed [OF assms])
    then show "h \<in> {length (timers st)}" by simp
  next
    fix h
    assume "h \<in> {length (timers st)}"
    then have "h = length (timers st)" by simp
    then show "h \<in> set (checkTimers (startMonitoring w pr a b srv st) (sid srv))"
      using start_new_armed [of st w pr a b srv] by (simp add: set_checkTimers)
  qed
qed

lemma start_cancels:
  assumes "monitoring st (sid srv) = Some h" "h < length (timers st)"
  shows "\<not> active (timers (startMonitoring w pr a b srv st) ! h)"
proof -
  obtain ts where ts: "timers (startMonitoring w pr a b srv st) =
      timers (case monitoring st (sid srv) of Some h \<Rightarrow> clearInterval h st | None \<Rightarrow> st)
      @ \<lparr> job = CheckJob (sid srv), period = jsMul (checkInterval srv) 1000, active = True \<rparr> # ts"
    using startMonitoring_shape by blast
  show ?thesis using assms by (simp add: ts nth_append clearInterval_nth)
qed

lemma stop_registryOk:
  assumes "registryOk st"
  shows "registryOk (stopMonitoring k st)"
proof (cases "monitoring st k")
  case None
  then show ?thesis using assms by (simp add: stopMonitoring_def)
next
  case (Some h)
  show ?thesis
    unfolding registryOk_def
  proof (intro allI impI)
    fix h' s
    assume a: "h' < length (timers (stopMonitoring k st))
          \<and> active (timers (stopMonitoring k st) ! h')
          \<and> job (timers (stopMonitoring k st) ! h') = CheckJob s"
    have t: "timers (stopMonitoring k st) = timers (clearInterval h st)"
      and m: "monitoring (stopMonitoring k st) = (monitoring st)(k := None)"
      using Some by (simp_all add: stopMonitoring_def)
    have h': "h' < length (timers st)" using a by (simp add: t)
    have old: "active (timers st ! h')" "job (timers st ! h') = CheckJob s" "h' \<noteq> h"
      using a h' unfolding t by (auto simp: clearInterval_nth split: if_splits)
    have r: "monitoring st s = Some h'" using assms h' old by (auto simp: registryOk_def)
    then have "s \<noteq> k" using Some old(3) by auto
    then show "monitoring (stopMonitoring k st) s = Some h'" using r by (simp add: m)
  qed
qed

lemma registry_at_most_one:
  assumes "registryOk st"
  shows "length (checkTimers st s) \<le> 1"
proof (cases "monitoring st s")
  case None
  then have "set (checkTimers st s) = {}"
    using assms by (auto simp: set_checkTimers registryOk_def)
  then show ?thesis by simp
next
  case (Some h)
  then have "set (checkTimers st s) \<subseteq> {h}"
    using assms by (auto simp: set_checkTimers registryOk_def)
  then have "card (set (checkTimers st s)) \<le> card {h}"
    by (rule card_mono [rotated]) simp
  then show ?thesis using distinct_card [OF distinct_checkTimers, of st s] by simp
qed

text \<open>
  C8.  In a state where every armed poll timer is the one registered for its server
  (the state without timers is one, and \<open>startMonitoring\<close> and \<open>stopMonitoring\<close> keep it
  so), no server has more than one armed poll timer.  \<open>startMonitoring\<close> clears the
  timer registered for the server, if any, and registers a new one, which afterwards is
  the only armed poll timer of the server; so after a second call for the same server
  the timer of the first call is cleared and again exactly one is armed.
  \<open>stopMonitoring\<close> for a key without a registered timer returns the state unchanged.
\<close>

theorem monitoring_rearm:
  assumes "registryOk st"
  shows "registryOk (startMonitoring w pr a b srv st)
    \<and> checkTimers (startMonitoring w pr a b srv st) (sid srv) = [length (timers st)]
    \<and> monitoring (startMonitoring w pr a b srv st) (sid srv) = Some (length (timers st))
    \<and> (\<forall>h. monitoring st (sid srv) = Some h \<and> h < length (timers st) \<longrightarrow>
           \<not> active (timers (startMonitoring w pr a b srv st) ! h))
    \<and> (sid srv2 = sid srv \<longrightarrow>
          checkTimers (startMonitoring w2 pr2 a2 b2 srv2 (startMonitoring w pr a b srv st))
              (sid srv)
            = [length (timers (startMonitoring w pr a b srv st))]
          \<and> \<not> active (timers (startMonitoring w2 pr2 a2 b2 srv2
                                 (startMonitoring w pr a b srv st)) ! length (timers st)))
    \<and> (\<forall>s. length (checkTimers st s) \<le> 1)
    \<and> registryOk (stopMonitoring k st)
    \<and> (monitoring st k = None \<longrightarrow> stopMonitoring k st = st)"
proof -
  let ?st1 = "startMonitoring w pr a b srv st"
  have ok1: "registryOk ?st1" using assms by (rule start_registryOk)
  have c1: "checkTimers ?st1 (sid srv) = [length (timers st)]"
    using assms by (rule start_checkTimers)
  have m1: "monitoring ?st1 (sid srv) = Some (length (timers st))"
    using startMonitoring_shape [of w pr a b srv st] by auto
  have k1: "\<not> active (timers ?st1 ! h)"
    if "monitoring st (sid srv) = Some h \<and> h < length (timers st)" for h
    using that start_cancels by blast
  have two: "checkTimers (startMonitoring w2 pr2 a2 b2 srv2 ?st1) (sid srv)
            = [length (timers ?st1)]
          \<and> \<not> active (timers (startMonitoring w2 pr2 a2 b2 srv2 ?st1) ! length (timers st))"
    if e: "sid srv2 = sid srv"
  proof -
    have "checkTimers (startMonitoring w2 pr2 a2 b2 srv2 ?st1) (sid srv2)
            = [length (timers ?st1)]"
      using ok1 by (rule start_checkTimers)
    moreover have "length (timers st) < length (timers ?st1)"
      using start_new_armed [of st w pr a b srv] by simp
    then have "\<not> active (timers (startMonitoring w2 pr2 a2 b2 srv2 ?st1) ! length (timers st))"
      using m1 e by (intro start_cancels) simp_all
    ultimately show ?thesis using e by simp
  qed
  have le: "length (checkTimers st s) \<le> 1" for s
    using assms by (rule registry_at_most_one)
  have s1: "registryOk (stopMonitoring k st)" using assms by (rule stop_registryOk)
  have s2: "stopMonitoring k st = st" if "monitoring st k = None"
    using that by (simp add: stopMonitoring_def)
  from ok1 c1 m1 k1 two le s1 s2 show ?thesis by blast
qed

theorem monitoring_rearm_witness:
  "registryOk fanState
   \<and> length (checkTimers
        (startMonitoring fanWorld (Threw ''connect ECONNREFUSED'') 10000 10400 exServer
           (startMonitoring fanWorld (Threw ''connect ECONNREFUSED'') 0 400 exServer fanState))
        (sid exServer)) = 1
   \<and> \<not> active (timers
        (startMonitoring fanWorld (Threw ''connect ECONNREFUSED'') 10000 10400 exServer
           (startMonitoring fanWorld (Threw ''connect ECONNREFUSED'') 0 400 exServer fanState))
        ! 0)
   \<and> monitoring fanState ''unknown'' = None
   \<and> stopMonitoring ''unknown'' fanState = fanState"
proof -
  have h: "registryOk fanState"
    by (simp add: registryOk_def fanState_def emptyState_def)
  have n: "monitoring fanState ''unknown'' = None" "length (timers fanState) = 0"
    by (simp_all add: fanState_def emptyState_def)
  note T = monitoring_rearm [OF h, of fanWorld "Threw ''connect ECONNREFUSED''" 0 400 exServer
      exServer fanWorld "Threw ''connect ECONNREFUSED''" 10000 10400 "''unknown''"]
  have two: "length (checkTimers
        (startMonitoring fanWorld (Threw ''connect ECONNREFUSED'') 10000 10400 exServer
           (startMonitoring fanWorld (Threw ''connect ECONNREFUSED'') 0 400 exServer fanState))
        (sid exServer)) = 1
   \<and> \<not> active (timers
        (startMonitoring fanWorld (Threw ''connect ECONNREFUSED'') 10000 10400 exServer
           (startMonitoring fanWorld (Threw ''connect ECONNREFUSED'') 0 400 exServer fanState))
        ! 0)"
    using T n(2) by simp
  have stop: "stopMonitoring ''unknown'' fanState = fanState"
    using T n(1) by blast
  from h two n(1) stop show ?thesis by blast
qed

end
